theory Spec2Isabelle
  imports Complex_Main
begin

section \<open>Python values\<close>

text \<open>
  The interview coach is Python. Its decisions read dictionaries that come from
  \<^verbatim>\<open>json.loads\<close> on the text of a language model, so a field can hold any JSON value.
  A Python \<^verbatim>\<open>str\<close> is a sequence of code points: \<^verbatim>\<open>len\<close> counts code points, and the
  phrase tables of the source are Russian. Strings are therefore lists of code points;
  an ASCII literal is written \<open>asc ''...''\<close>, any other literal as its code points.
\<close>

type_synonym ustring = "nat list"

definition asc :: "string \<Rightarrow> ustring" where
  "asc s = map of_char s"

text \<open>
  A Python float, as far as the comparisons of the source can tell: a finite value, an
  infinity or NaN (\<^verbatim>\<open>json.loads\<close> accepts \<^verbatim>\<open>NaN\<close> and \<^verbatim>\<open>Infinity\<close>).
\<close>

datatype pyfloat = Finite rat | PosInf | NegInf | NaN

datatype pyval =
    PyNone
  | PyBool bool
  | PyInt int
  | PyFloat pyfloat
  | PyStr ustring
  | PyList "pyval list"
  | PyDict "(ustring \<times> pyval) list"

type_synonym pydict = "(ustring \<times> pyval) list"

datatype error = TypeError | AttributeError | ValueError | LLMError

text \<open>Truth value testing (\<^verbatim>\<open>if x\<close>, \<^verbatim>\<open>not x\<close>, \<^verbatim>\<open>x or y\<close>).\<close>

fun truthy :: "pyval \<Rightarrow> bool" where
  "truthy PyNone = False"
| "truthy (PyBool b) = b"
| "truthy (PyInt i) = (i \<noteq> 0)"
| "truthy (PyFloat f) = (f \<noteq> Finite 0)"
| "truthy (PyStr s) = (s \<noteq> [])"
| "truthy (PyList xs) = (xs \<noteq> [])"
| "truthy (PyDict kvs) = (kvs \<noteq> [])"

text \<open>
  \<^verbatim>\<open>isinstance(x, (int, float))\<close>: \<^verbatim>\<open>bool\<close> is a subclass of \<^verbatim>\<open>int\<close>. Only these
  values can be ordered against a number; any other operand raises \<^verbatim>\<open>TypeError\<close>.
\<close>

fun as_number :: "pyval \<Rightarrow> pyfloat option" where
  "as_number (PyBool b) = Some (Finite (if b then 1 else 0))"
| "as_number (PyInt i) = Some (Finite (of_int i))"
| "as_number (PyFloat f) = Some f"
| "as_number _ = None"

fun float_ge :: "pyfloat \<Rightarrow> rat \<Rightarrow> bool" where
  "float_ge (Finite r) k = (k \<le> r)"
| "float_ge PosInf k = True"
| "float_ge NegInf k = False"
| "float_ge NaN k = False"

fun float_lt :: "pyfloat \<Rightarrow> rat \<Rightarrow> bool" where
  "float_lt (Finite r) k = (r < k)"
| "float_lt PosInf k = False"
| "float_lt NegInf k = True"
| "float_lt NaN k = False"

fun float_le :: "pyfloat \<Rightarrow> rat \<Rightarrow> bool" where
  "float_le (Finite r) k = (r \<le> k)"
| "float_le PosInf k = False"
| "float_le NegInf k = True"
| "float_le NaN k = False"

definition py_ge :: "pyval \<Rightarrow> rat \<Rightarrow> error + bool" where
  "py_ge v k = (case as_number v of None \<Rightarrow> Inl TypeError | Some f \<Rightarrow> Inr (float_ge f k))"

definition py_lt :: "pyval \<Rightarrow> rat \<Rightarrow> error + bool" where
  "py_lt v k = (case as_number v of None \<Rightarrow> Inl TypeError | Some f \<Rightarrow> Inr (float_lt f k))"

text \<open>
  \<^verbatim>\<open>d.get(key, default)\<close>. A Python dictionary holds one value per key; the association
  list is read at its first entry for the key.
\<close>

definition dict_get :: "pydict \<Rightarrow> ustring \<Rightarrow> pyval \<Rightarrow> pyval" where
  "dict_get d k dflt = (case map_of d k of None \<Rightarrow> dflt | Some v \<Rightarrow> v)"

subsection \<open>Strings\<close>

fun is_prefix :: "'a list \<Rightarrow> 'a list \<Rightarrow> bool" where
  "is_prefix [] ys = True"
| "is_prefix (x # xs) [] = False"
| "is_prefix (x # xs) (y # ys) = (x = y \<and> is_prefix xs ys)"

text \<open>\<^verbatim>\<open>needle in hay\<close> for two strings: \<open>needle\<close> occurs as a contiguous run.\<close>

fun contains :: "'a list \<Rightarrow> 'a list \<Rightarrow> bool" where
  "contains needle [] = (needle = [])"
| "contains needle (y # ys) = (is_prefix needle (y # ys) \<or> contains needle ys)"

text \<open>
  The functions of the Python library that the source calls and the repository does not
  define: \<^verbatim>\<open>str.lower\<close>, the whitespace class of \<^verbatim>\<open>str.strip\<close> and of \<^verbatim>\<open>\s\<close>,
  \<^verbatim>\<open>json.loads\<close> (\<open>None\<close> when it raises), and \<^verbatim>\<open>str()\<close> of a value that is not a string.
  Every theorem below holds for any such library.
\<close>

record pylib =
  str_lower :: "ustring \<Rightarrow> ustring"
  isspace :: "nat \<Rightarrow> bool"
  json_loads :: "ustring \<Rightarrow> pyval option"
  py_repr :: "pyval \<Rightarrow> ustring"

definition lstrip :: "pylib \<Rightarrow> ustring \<Rightarrow> ustring" where
  "lstrip L s = dropWhile (isspace L) s"

definition rstrip :: "pylib \<Rightarrow> ustring \<Rightarrow> ustring" where
  "rstrip L s = rev (dropWhile (isspace L) (rev s))"

definition strip :: "pylib \<Rightarrow> ustring \<Rightarrow> ustring" where
  "strip L s = rstrip L (lstrip L s)"

text \<open>\<^verbatim>\<open>str(v)\<close> and \<^verbatim>\<open>f"{v}"\<close>: a string is itself.\<close>

definition py_str :: "pylib \<Rightarrow> pyval \<Rightarrow> ustring" where
  "py_str L v = (case v of PyStr s \<Rightarrow> s | _ \<Rightarrow> py_repr L v)"

section \<open>The edge-case classifier\<close>

text \<open>
  \<^verbatim>\<open>MultiAgentInterviewCoach._detect_edge_case\<close> (interview\_system.py). It returns one of
  the strings \<^verbatim>\<open>"silence"\<close>, \<^verbatim>\<open>"dont_know"\<close>, \<^verbatim>\<open>"rude"\<close>, \<^verbatim>\<open>"troll"\<close>, or \<^verbatim>\<open>None\<close>.
  The score comparison of the troll rule raises \<^verbatim>\<open>TypeError\<close> on a score that is not a
  number. The analysis is whatever the mentor returned: \<^verbatim>\<open>analysis.get\<close> raises
  \<^verbatim>\<open>AttributeError\<close> on a value that is not a dictionary, and the first \<^verbatim>\<open>get\<close> is
  evaluated after the length test and after the phrase test of the "don't know" rule
  (\<^verbatim>\<open>any(...) or analysis.get("is_dont_know")\<close>).
\<close>

datatype edge_case = Silence | DontKnow | Rude | Troll

text \<open>
  The filler tokens: a full stop, three full stops, a hyphen, an em dash (U+2014).
\<close>

definition silence_tokens :: "ustring list" where
  "silence_tokens = [[46], [46, 46, 46], [45], [8212]]"

text \<open>
  The phrase tables, in the order of the source; code points in decimal (1072 is U+0430,
  Cyrillic small a). In transliteration: "ne znayu", "ne pomnyu", "ne stalkivalsya",
  "ne uveren", "zatrudnyayus'", "ne mogu otvetit'", "propustit'", "skip", "ne izuchal",
  "ne rabotal s etim", "ne prikhodilos'".
\<close>

definition dont_know_phrases :: "ustring list" where
  "dont_know_phrases = [
     [1085, 1077, 32, 1079, 1085, 1072, 1102],
     [1085, 1077, 32, 1087, 1086, 1084, 1085, 1102],
     [1085, 1077, 32, 1089, 1090, 1072, 1083, 1082, 1080, 1074, 1072, 1083, 1089, 1103],
     [1085, 1077, 32, 1091, 1074, 1077, 1088, 1077, 1085],
     [1079, 1072, 1090, 1088, 1091, 1076, 1085, 1103, 1102, 1089, 1100],
     [1085, 1077, 32, 1084, 1086, 1075, 1091, 32, 1086, 1090, 1074, 1077, 1090, 1080, 1090,
      1100],
     [1087, 1088, 1086, 1087, 1091, 1089, 1090, 1080, 1090, 1100],
     [115, 107, 105, 112],
     [1085, 1077, 32, 1080, 1079, 1091, 1095, 1072, 1083],
     [1085, 1077, 32, 1088, 1072, 1073, 1086, 1090, 1072, 1083, 32, 1089, 32, 1101, 1090,
      1080, 1084],
     [1085, 1077, 32, 1087, 1088, 1080, 1093, 1086, 1076, 1080, 1083, 1086, 1089, 1100]]"

text \<open>
  "otstan'", "dostal", "nadoel", "glupyi vopros", "tupoi", "idiot", "durak", "poshyol",
  "otvali", "zatknis'".
\<close>

definition rude_phrases :: "ustring list" where
  "rude_phrases = [
     [1086, 1090, 1089, 1090, 1072, 1085, 1100],
     [1076, 1086, 1089, 1090, 1072, 1083],
     [1085, 1072, 1076, 1086, 1077, 1083],
     [1075, 1083, 1091, 1087, 1099, 1081, 32, 1074, 1086, 1087, 1088, 1086, 1089],
     [1090, 1091, 1087, 1086, 1081],
     [1080, 1076, 1080, 1086, 1090],
     [1076, 1091, 1088, 1072, 1082],
     [1087, 1086, 1096, 1105, 1083],
     [1086, 1090, 1074, 1072, 1083, 1080],
     [1079, 1072, 1090, 1082, 1085, 1080, 1089, 1100]]"

text \<open>
  "42", "potomu chto", "a zachem", "ne skazhu", "ugadai", "sekret", "magiya",
  "potomu chto gladiolus".
\<close>

definition troll_indicators :: "ustring list" where
  "troll_indicators = [
     [52, 50],
     [1087, 1086, 1090, 1086, 1084, 1091, 32, 1095, 1090, 1086],
     [1072, 32, 1079, 1072, 1095, 1077, 1084],
     [1085, 1077, 32, 1089, 1082, 1072, 1078, 1091],
     [1091, 1075, 1072, 1076, 1072, 1081],
     [1089, 1077, 1082, 1088, 1077, 1090],
     [1084, 1072, 1075, 1080, 1103],
     [1087, 1086, 1090, 1086, 1084, 1091, 32, 1095, 1090, 1086, 32, 1075, 1083, 1072, 1076,
      1080, 1086, 1083, 1091, 1089]]"

definition detect_edge_case :: "pylib \<Rightarrow> ustring \<Rightarrow> pyval \<Rightarrow> error + edge_case option" where
  "detect_edge_case L user_msg analysis =
     (let msg_lower = strip L (str_lower L user_msg) in
      if length msg_lower < 3 \<or> msg_lower \<in> set silence_tokens then Inr (Some Silence)
      else if list_ex (\<lambda>phrase. contains phrase msg_lower) dont_know_phrases
        then Inr (Some DontKnow)
      else case analysis of
        PyDict d \<Rightarrow>
          if truthy (dict_get d (asc ''is_dont_know'') PyNone) then Inr (Some DontKnow)
          else if list_ex (\<lambda>phrase. contains phrase msg_lower) rude_phrases
                  \<or> truthy (dict_get d (asc ''is_rude'') PyNone)
            then Inr (Some Rude)
          else if msg_lower \<in> set troll_indicators
                  \<or> (length msg_lower < 10 \<and> contains [63] msg_lower)
            then (case py_lt (dict_get d (asc ''correctness_score'') (PyInt 50)) 10 of
                    Inl e \<Rightarrow> Inl e
                  | Inr low \<Rightarrow>
                      if low \<and> \<not> truthy (dict_get d (asc ''is_question_from_candidate'') PyNone)
                      then Inr (Some Troll) else Inr None)
          else Inr None
      | _ \<Rightarrow> Inl AttributeError)"

section \<open>Structured-response recovery\<close>

text \<open>
  \<^verbatim>\<open>extract_json\<close> (interview\_system.py). The three \<^verbatim>\<open>re.sub\<close> calls remove a leading
  \<^verbatim>\<open>```json\<close> fence with the whitespace after it, a leading \<^verbatim>\<open>```\<close> fence with the
  whitespace after it, and a closing fence with the whitespace before it. \<^verbatim>\<open>^\<close> matches
  at the start of the text only; \<^verbatim>\<open>$\<close> matches at the end of the text and before a
  newline that ends it.
\<close>

definition fence :: "ustring" where
  "fence = [96, 96, 96]"

definition fence_json :: "ustring" where
  "fence_json = [96, 96, 96, 106, 115, 111, 110]"

definition sub_prefix_ws :: "pylib \<Rightarrow> ustring \<Rightarrow> ustring \<Rightarrow> ustring" where
  "sub_prefix_ws L p s =
     (if is_prefix p s then dropWhile (isspace L) (drop (length p) s) else s)"

definition sub_fence_end :: "pylib \<Rightarrow> ustring \<Rightarrow> ustring" where
  "sub_fence_end L s =
     (if is_prefix (rev fence) (rev s) then rstrip L (take (length s - 3) s)
      else if is_prefix (rev (fence @ [10])) (rev s) then rstrip L (take (length s - 4) s) @ [10]
      else s)"

text \<open>
  \<^verbatim>\<open>re.search(r'\{[\s\S]*\}', text)\<close>: the span from the first opening brace to the last
  closing brace after it, when there is one.
\<close>

definition brace_span :: "ustring \<Rightarrow> ustring option" where
  "brace_span s =
     (let from_open = dropWhile (\<lambda>c. c \<noteq> 123) s;
          upto_close = rev (dropWhile (\<lambda>c. c \<noteq> 125) (rev from_open))
      in if upto_close = [] then None else Some upto_close)"

definition normalize_fences :: "pylib \<Rightarrow> ustring \<Rightarrow> ustring" where
  "normalize_fences L text =
     sub_fence_end L (sub_prefix_ws L fence (sub_prefix_ws L fence_json (strip L text)))"

text \<open>
  The value \<^verbatim>\<open>json.loads\<close> gives for the brace span, else for the whole normalized
  text; \<open>None\<close> when both raise (or there is no span and the text does not parse).
\<close>

definition parsed_json :: "pylib \<Rightarrow> ustring \<Rightarrow> pyval option" where
  "parsed_json L text =
     (let t = normalize_fences L text in
      case (case brace_span t of None \<Rightarrow> None | Some m \<Rightarrow> json_loads L m) of
        Some v \<Rightarrow> Some v
      | None \<Rightarrow> json_loads L t)"

definition extract_json :: "pylib \<Rightarrow> ustring \<Rightarrow> pyval" where
  "extract_json L text = (case parsed_json L text of Some v \<Rightarrow> v | None \<Rightarrow> PyDict [])"

text \<open>\<^verbatim>\<open>str(n)\<close> of a natural number: its decimal digits.\<close>

fun str_nat :: "nat \<Rightarrow> ustring" where
  "str_nat n = (if n < 10 then [48 + n] else str_nat (n div 10) @ [48 + n mod 10])"

declare str_nat.simps [simp del]

text \<open>
  The instruction appended on a retry, an f-string around \<^verbatim>\<open>attempt + 1\<close>: it demands a
  bare JSON object, no text around it and no code fence.
\<close>

definition retry_head :: "ustring" where
  "retry_head =
     [10, 10, 1050, 1056, 1048, 1058, 1048, 1063, 1045, 1057, 1050, 1048, 32, 1042, 1040,
      1046, 1053, 1054, 32, 40, 1087, 1086, 1087, 1099, 1090, 1082, 1072, 32]"

definition retry_tail :: "ustring" where
  "retry_tail =
     [41, 58, 10, 45, 32, 1042, 1077, 1088, 1085, 1080, 32, 1058, 1054, 1051, 1068, 1050,
      1054, 32, 1074, 1072, 1083, 1080, 1076, 1085, 1099, 1081, 32, 74, 83, 79, 78, 10, 45,
      32, 1053, 1045, 32, 1076, 1086, 1073, 1072, 1074, 1083, 1103, 1081, 32, 1085, 1080,
      1082, 1072, 1082, 1086, 1075, 1086, 32, 1090, 1077, 1082, 1089, 1090, 1072, 32, 1076,
      1086, 32, 1080, 1083, 1080, 32, 1087, 1086, 1089, 1083, 1077, 32, 74, 83, 79, 78, 10,
      45, 32, 1053, 1045, 32, 1080, 1089, 1087, 1086, 1083, 1100, 1079, 1091, 1081, 32, 96,
      96, 96, 106, 115, 111, 110, 32, 1080, 1083, 1080, 32, 1076, 1088, 1091, 1075, 1080,
      1077, 32, 1086, 1073, 1105, 1088, 1090, 1082, 1080, 10, 45, 32, 1053, 1072, 1095,
      1085, 1080, 32, 1086, 1090, 1074, 1077, 1090, 32, 1089, 1088, 1072, 1079, 1091, 32,
      1089, 32, 1086, 1090, 1082, 1088, 1099, 1074, 1072, 1102, 1097, 1077, 1081, 32, 1092,
      1080, 1075, 1091, 1088, 1085, 1086, 1081, 32, 1089, 1082, 1086, 1073, 1082, 1080, 32,
      123, 10]"

text \<open>
  \<^verbatim>\<open>call_llm\<close> is the language model: the oracle \<open>llm\<close> gives, for the attempt number,
  the prompt and the temperature, the text it answers or the exception the call raises.
  Temperatures are Python floats; the model computes with rationals.

  \<^verbatim>\<open>call_llm_with_json_retry\<close> loops over \<^verbatim>\<open>range(max_retries)\<close>. The body of each round
  stands in \<^verbatim>\<open>try ... except Exception\<close>, so an exception of the call ends the round and
  the loop goes on. The result is the list of calls made, in order, and the value
  returned. The pauses between rounds (\<^verbatim>\<open>time.sleep\<close>) and the debug print change
  neither and are left out.
\<close>

type_synonym llm = "nat \<Rightarrow> ustring \<Rightarrow> rat \<Rightarrow> error + ustring"

fun retry_rounds ::
  "pylib \<Rightarrow> llm \<Rightarrow> ustring \<Rightarrow> rat \<Rightarrow> nat list \<Rightarrow> (ustring \<times> rat) list \<times> pyval" where
  "retry_rounds L call_llm prompt temperature [] = ([], PyDict [])"
| "retry_rounds L call_llm prompt temperature (attempt # rest) =
     (let current_temp = max (3 / 10) (temperature - of_nat attempt * (2 / 10));
          sent = (if attempt > 0
                  then prompt @ retry_head @ str_nat (attempt + 1) @ retry_tail
                  else prompt)
      in case call_llm attempt sent current_temp of
           Inl e \<Rightarrow>
             (let (calls, r) = retry_rounds L call_llm prompt temperature rest
              in ((sent, current_temp) # calls, r))
         | Inr resp \<Rightarrow>
             (let result = extract_json L resp in
              if truthy result then ([(sent, current_temp)], result)
              else (let (calls, r) = retry_rounds L call_llm prompt temperature rest
                    in ((sent, current_temp) # calls, r))))"

definition call_llm_with_json_retry ::
  "pylib \<Rightarrow> llm \<Rightarrow> ustring \<Rightarrow> int \<Rightarrow> rat \<Rightarrow> (ustring \<times> rat) list \<times> pyval" where
  "call_llm_with_json_retry L call_llm prompt max_retries temperature =
     retry_rounds L call_llm prompt temperature [0..<nat max_retries]"

text \<open>
  What round \<open>attempt\<close> of the loop sends, and what it yields: the value
  \<^verbatim>\<open>extract_json\<close> gives when the call returns and the value is truthy, and nothing when
  the call raises or the value is falsy (\<^verbatim>\<open>if result: return result\<close>).
\<close>

definition attempt_call :: "ustring \<Rightarrow> rat \<Rightarrow> nat \<Rightarrow> ustring \<times> rat" where
  "attempt_call prompt temperature attempt =
     (if attempt > 0 then prompt @ retry_head @ str_nat (attempt + 1) @ retry_tail else prompt,
      max (3 / 10) (temperature - of_nat attempt * (2 / 10)))"

definition attempt_outcome :: "pylib \<Rightarrow> llm \<Rightarrow> ustring \<Rightarrow> rat \<Rightarrow> nat \<Rightarrow> pyval option" where
  "attempt_outcome L call_llm prompt temperature attempt =
     (case call_llm attempt
             (if attempt > 0 then prompt @ retry_head @ str_nat (attempt + 1) @ retry_tail
              else prompt)
             (max (3 / 10) (temperature - of_nat attempt * (2 / 10))) of
        Inl e \<Rightarrow> None
      | Inr resp \<Rightarrow> (if truthy (extract_json L resp) then Some (extract_json L resp) else None))"

section \<open>The fact checker of the coach\<close>

text \<open>
  \<^verbatim>\<open>FactCheckerAgent.check\<close> (interview\_system.py): the prompt is an f-string around the
  statement; an empty result of the recovery is replaced by a record whose \<^verbatim>\<open>is_true\<close>
  is \<^verbatim>\<open>False\<close> and whose explanation says that the statement could not be checked.
\<close>

definition fc_head :: "ustring" where
  "fc_head =
     [1058, 1099, 32, 1101, 1082, 1089, 1087, 1077, 1088, 1090, 32, 1087, 1086, 32, 1087,
      1088, 1086, 1074, 1077, 1088, 1082, 1077, 32, 1092, 1072, 1082, 1090, 1086, 1074, 32,
      1074, 32, 1086, 1073, 1083, 1072, 1089, 1090, 1080, 32, 1087, 1088, 1086, 1075, 1088,
      1072, 1084, 1084, 1080, 1088, 1086, 1074, 1072, 1085, 1080, 1103, 32, 1080, 32, 73,
      84, 46, 10, 10, 1055, 1088, 1086, 1074, 1077, 1088, 1100, 32, 1089, 1083, 1077, 1076,
      1091, 1102, 1097, 1077, 1077, 32, 1091, 1090, 1074, 1077, 1088, 1078, 1076, 1077,
      1085, 1080, 1077, 32, 1082, 1072, 1085, 1076, 1080, 1076, 1072, 1090, 1072, 58, 10,
      34]"

definition fc_tail :: "ustring" where
  "fc_tail =
     [34, 10, 10, 1048, 1047, 1042, 1045, 1057, 1058, 1053, 1067, 1045, 32, 1060, 1040,
      1050, 1058, 1067, 58, 10, 45, 32, 80, 121, 116, 104, 111, 110, 32, 52, 46, 48, 32,
      1053, 1045, 32, 1089, 1091, 1097, 1077, 1089, 1090, 1074, 1091, 1077, 1090, 46, 32,
      1055, 1086, 1089, 1083, 1077, 1076, 1085, 1103, 1103, 32, 1089, 1090, 1072, 1073,
      1080, 1083, 1100, 1085, 1072, 1103, 32, 1074, 1077, 1088, 1089, 1080, 1103, 32, 8212,
      32, 80, 121, 116, 104, 111, 110, 32, 51, 46, 120, 32, 40, 51, 46, 49, 50, 44, 32, 51,
      46, 49, 51, 41, 10, 45, 32, 71, 73, 76, 32, 40, 71, 108, 111, 98, 97, 108, 32, 73,
      110, 116, 101, 114, 112, 114, 101, 116, 101, 114, 32, 76, 111, 99, 107, 41, 32, 1074,
      1089, 1105, 32, 1077, 1097, 1105, 32, 1089, 1091, 1097, 1077, 1089, 1090, 1074, 1091,
      1077, 1090, 32, 1074, 32, 67, 80, 121, 116, 104, 111, 110, 10, 45, 32, 1062, 1080,
      1082, 1083, 1099, 32, 102, 111, 114, 32, 1085, 1080, 1082, 1091, 1076, 1072, 32, 1085,
      1077, 32, 1076, 1077, 1085, 1091, 1090, 1089, 1103, 32, 1080, 1079, 32, 80, 121, 116,
      104, 111, 110, 10, 10, 1042, 1077, 1088, 1085, 1080, 32, 1058, 1054, 1051, 1068, 1050,
      1054, 32, 74, 83, 79, 78, 32, 40, 1073, 1077, 1079, 32, 109, 97, 114, 107, 100, 111,
      119, 110, 41, 58, 10, 123, 10, 32, 32, 32, 32, 34, 105, 115, 95, 116, 114, 117, 101,
      34, 58, 32, 116, 114, 117, 101, 32, 1080, 1083, 1080, 32, 102, 97, 108, 115, 101, 44,
      10, 32, 32, 32, 32, 34, 101, 120, 112, 108, 97, 110, 97, 116, 105, 111, 110, 34, 58,
      32, 34, 1087, 1086, 1076, 1088, 1086, 1073, 1085, 1086, 1077, 32, 1086, 1073, 1098,
      1103, 1089, 1085, 1077, 1085, 1080, 1077, 34, 44, 10, 32, 32, 32, 32, 34, 99, 111,
      114, 114, 101, 99, 116, 95, 105, 110, 102, 111, 34, 58, 32, 34, 1087, 1088, 1072,
      1074, 1080, 1083, 1100, 1085, 1072, 1103, 32, 1080, 1085, 1092, 1086, 1088, 1084,
      1072, 1094, 1080, 1103, 32, 40, 1077, 1089, 1083, 1080, 32, 1091, 1090, 1074, 1077,
      1088, 1078, 1076, 1077, 1085, 1080, 1077, 32, 1083, 1086, 1078, 1085, 1086, 41, 34,
      10, 125, 10]"

definition fcd_explanation :: "ustring" where
  "fcd_explanation =
     [1053, 1077, 32, 1091, 1076, 1072, 1083, 1086, 1089, 1100, 32, 1087, 1088, 1086, 1074,
      1077, 1088, 1080, 1090, 1100, 32, 1091, 1090, 1074, 1077, 1088, 1078, 1076, 1077,
      1085, 1080, 1077]"

definition FactCheckerAgent_check :: "pylib \<Rightarrow> llm \<Rightarrow> ustring \<Rightarrow> pyval" where
  "FactCheckerAgent_check L call_llm stmt =
     (let prompt = fc_head @ stmt @ fc_tail;
          result = snd (call_llm_with_json_retry L call_llm prompt 3 (3 / 10))
      in if \<not> truthy result
         then PyDict [(asc ''is_true'', PyBool False),
                      (asc ''explanation'', PyStr fcd_explanation),
                      (asc ''correct_info'', PyStr [])]
         else result)"

section \<open>The mentor of the coach\<close>

text \<open>
  \<^verbatim>\<open>MentorAgent.analyze\<close> (interview\_system.py). The prompt is assembled from the level, the
  covered topics, the examples, the last four entries of the transcript and the message;
  it is a parameter here, since the language model is arbitrary. The result of the
  recovery is returned as it is when it is truthy, whatever JSON value it is; a falsy
  one is replaced by the default record ("Analiz ne vypolnen": no analysis was made,
  "Prodolzhit' interv'yu": continue the interview).
\<close>

definition default_analysis :: pydict where
  "default_analysis =
     [(asc ''analysis'',
       PyStr [1040, 1085, 1072, 1083, 1080, 1079, 32, 1085, 1077, 32, 1074, 1099, 1087, 1086,
              1083, 1085, 1077, 1085]),
      (asc ''is_correct'', PyNone),
      (asc ''correctness_score'', PyInt 50),
      (asc ''confidence_level'', PyStr (asc ''medium'')),
      (asc ''red_flags'', PyList []),
      (asc ''is_hallucination'', PyBool False),
      (asc ''is_off_topic'', PyBool False),
      (asc ''is_dont_know'', PyBool False),
      (asc ''is_silence'', PyBool False),
      (asc ''is_rude'', PyBool False),
      (asc ''topic_detected'', PyStr []),
      (asc ''difficulty_recommendation'', PyStr (asc ''maintain'')),
      (asc ''recommendation'',
       PyStr [1055, 1088, 1086, 1076, 1086, 1083, 1078, 1080, 1090, 1100, 32, 1080, 1085,
              1090, 1077, 1088, 1074, 1100, 1102]),
      (asc ''suggested_action'', PyStr (asc ''continue''))]"

definition MentorAgent_analyze :: "pylib \<Rightarrow> llm \<Rightarrow> ustring \<Rightarrow> pyval" where
  "MentorAgent_analyze L call_llm prompt =
     (let result = snd (call_llm_with_json_retry L call_llm prompt 3 (5 / 10))
      in if \<not> truthy result then PyDict default_analysis else result)"

section \<open>The coach\<close>

text \<open>
  \<^verbatim>\<open>MultiAgentInterviewCoach\<close> (interview\_system.py). The record holds the attributes that
  the turn logic decides on: the turn counter, the termination flag, the difficulty
  level, the correctness streak, the difficulty trajectory and the red flags. The
  transcript, the thought log, the topic list and the question log only carry text to
  the prompts and to the report and are not part of the model.
\<close>

record coach =
  turn_num :: int
  finished :: bool
  difficulty :: int
  correct_streak :: int
  difficulty_history :: "int list"
  red_flags :: "ustring list"

text \<open>\<^verbatim>\<open>__init__\<close>\<close>

definition coach_init :: coach where
  "coach_init = \<lparr>turn_num = 0, finished = False, difficulty = 2, correct_streak = 0,
                 difficulty_history = [], red_flags = []\<rparr>"

text \<open>
  \<^verbatim>\<open>start\<close>: the level comes from the declared grade and is appended to the trajectory.
  The first interviewer message, generated afterwards, changes none of these attributes.
\<close>

definition start :: "pylib \<Rightarrow> ustring \<Rightarrow> coach \<Rightarrow> coach" where
  "start L grade c =
     (let grade_lower = str_lower L grade;
          d = (if contains (asc ''senior'') grade_lower then 8
               else if contains (asc ''middle'') grade_lower then 6
               else if contains (asc ''junior+'') grade_lower
                       \<or> contains (asc ''junior plus'') grade_lower then 5
               else if contains (asc ''junior'') grade_lower then 3
               else 2)
      in c\<lparr>difficulty := d, difficulty_history := difficulty_history c @ [d]\<rparr>)"

text \<open>
  \<^verbatim>\<open>_adjust_difficulty\<close>. The attributes are updated in place, so an exception leaves the
  assignments made before it: the result is the coach and the exception raised, if any.
  \<^verbatim>\<open>is_correct and correctness >= 80\<close> compares only when \<^verbatim>\<open>is_correct\<close> is truthy, and
  \<^verbatim>\<open>recommendation == "decrease" or (not is_correct and correctness < 40)\<close> compares only
  when the recommendation is another one and \<^verbatim>\<open>is_correct\<close> is falsy.
\<close>

definition adjust_difficulty :: "pydict \<Rightarrow> coach \<Rightarrow> coach \<times> error option" where
  "adjust_difficulty analysis c =
     (let recommendation = dict_get analysis (asc ''difficulty_recommendation'') (PyStr (asc ''maintain''));
          correctness = dict_get analysis (asc ''correctness_score'') (PyInt 50);
          is_correct = dict_get analysis (asc ''is_correct'') (PyBool False)
      in case (if truthy is_correct then py_ge correctness 80 else Inr False) of
           Inl e \<Rightarrow> (c, Some e)
         | Inr good \<Rightarrow>
             (let c1 = c\<lparr>correct_streak := (if good then correct_streak c + 1 else 0)\<rparr> in
              if truthy is_correct
                 \<and> (recommendation = PyStr (asc ''increase'') \<or> correct_streak c1 \<ge> 2)
              then (let d = min 10 (difficulty c1 + 1) in
                    (c1\<lparr>difficulty := d, correct_streak := 0,
                        difficulty_history := difficulty_history c1 @ [d]\<rparr>, None))
              else case (if recommendation = PyStr (asc ''decrease'') then Inr True
                         else if \<not> truthy is_correct then py_lt correctness 40
                         else Inr False) of
                     Inl e \<Rightarrow> (c1, Some e)
                   | Inr lower \<Rightarrow>
                       (let d = (if lower then max 1 (difficulty c1 - 1) else difficulty c1) in
                        (c1\<lparr>difficulty := d,
                            difficulty_history := difficulty_history c1 @ [d]\<rparr>, None))))"

text \<open>
  The first test of \<^verbatim>\<open>_adjust_difficulty\<close>, \<^verbatim>\<open>is_correct and correctness >= 80\<close>: the
  answer is correct with a score of at least 80, it is not, or the comparison raises.
\<close>

definition verdict_good :: "pydict \<Rightarrow> error + bool" where
  "verdict_good analysis =
     (if truthy (dict_get analysis (asc ''is_correct'') (PyBool False))
      then py_ge (dict_get analysis (asc ''correctness_score'') (PyInt 50)) 80
      else Inr False)"

text \<open>
  The red flag of a failed fact check, an f-string around the explanation and the
  corrected fact of the fact checker's record.
\<close>

definition flag_head :: "ustring" where
  "flag_head =
     [1043, 1040, 1051, 1051, 1070, 1062, 1048, 1053, 1040, 1062, 1048, 1071, 58, 32]"

definition flag_mid :: "ustring" where
  "flag_mid =
     [46, 32, 1055, 1088, 1072, 1074, 1080, 1083, 1100, 1085, 1072, 1103, 32, 1080, 1085,
      1092, 1086, 1088, 1084, 1072, 1094, 1080, 1103, 58, 32]"

definition flag_expl_default :: "ustring" where
  "flag_expl_default =
     [1053, 1077, 1082, 1086, 1088, 1088, 1077, 1082, 1090, 1085, 1086, 1077, 32, 1091,
      1090, 1074, 1077, 1088, 1078, 1076, 1077, 1085, 1080, 1077]"

text \<open>The termination commands of \<^verbatim>\<open>process\<close>: "stop" in Russian, "stop", "fidbek", "feedback".\<close>

definition stop_commands :: "ustring list" where
  "stop_commands = [[1089, 1090, 1086, 1087], [115, 116, 111, 112],
                    [1092, 1080, 1076, 1073, 1101, 1082],
                    [102, 101, 101, 100, 98, 97, 99, 107]]"

text \<open>
  What one turn receives from outside: the value \<^verbatim>\<open>self.mentor.analyze\<close> returns
  (\<open>MentorAgent_analyze\<close> above, on the prompt of the turn) or the exception it raises
  while it assembles the prompt, and the language model behind the fact checker.
  \<^verbatim>\<open>analyze\<close> is annotated \<^verbatim>\<open>Dict[str, Any]\<close>, yet it returns whatever truthy value
  \<^verbatim>\<open>call_llm_with_json_retry\<close> parsed (a list, a string or a number as well as a
  dictionary) and its own default record otherwise, so the value is any \<^typ>\<open>pyval\<close> here.
\<close>

record turn_env =
  mentor_analyze :: "error + pyval"
  fact_llm :: llm

text \<open>The calls to the other agents that a turn makes, in order.\<close>

datatype event = MentorAnalyze ustring | FactCheck ustring | FeedbackGenerate

text \<open>
  \<^verbatim>\<open>_gen_feedback\<close> sets the termination flag and has the feedback agent compile the
  report; the rendering of the report is not modelled.
\<close>

definition gen_feedback :: "coach \<Rightarrow> coach \<times> event list \<times> error option" where
  "gen_feedback c = (c\<lparr>finished := True\<rparr>, [FeedbackGenerate], None)"

text \<open>
  The difficulty step of \<^verbatim>\<open>process\<close>: a turn without an edge case goes through
  \<^verbatim>\<open>_adjust_difficulty\<close>; silence and "don't know" lower the level by one and append it
  to the trajectory; a rude or trolling turn changes nothing.
\<close>

definition update_difficulty :: "edge_case option \<Rightarrow> pydict \<Rightarrow> coach \<Rightarrow> coach \<times> error option" where
  "update_difficulty edge_case analysis c =
     (if edge_case \<notin> {Some Silence, Some DontKnow, Some Rude, Some Troll}
      then adjust_difficulty analysis c
      else if edge_case \<in> {Some DontKnow, Some Silence}
      then (let d = max 1 (difficulty c - 1) in
            (c\<lparr>difficulty := d, difficulty_history := difficulty_history c @ [d]\<rparr>, None))
      else (c, None))"

text \<open>
  The escalation step of \<^verbatim>\<open>process\<close>: the fact checker is called when the analysis
  carries a truthy \<^verbatim>\<open>is_hallucination\<close>, and a red flag is appended when
  \<^verbatim>\<open>fc_result.get("is_true", True)\<close> is falsy. \<^verbatim>\<open>get\<close> raises \<^verbatim>\<open>AttributeError\<close> on a
  result that is not a dictionary.
\<close>

definition escalate :: "pylib \<Rightarrow> llm \<Rightarrow> pydict \<Rightarrow> ustring \<Rightarrow> coach \<Rightarrow> coach \<times> event list \<times> error option" where
  "escalate L call_llm analysis user_msg c =
     (if truthy (dict_get analysis (asc ''is_hallucination'') PyNone)
      then (case FactCheckerAgent_check L call_llm user_msg of
              PyDict fc_result \<Rightarrow>
                if \<not> truthy (dict_get fc_result (asc ''is_true'') (PyBool True))
                then (let flag = flag_head
                            @ py_str L (dict_get fc_result (asc ''explanation'')
                                         (PyStr flag_expl_default))
                            @ flag_mid
                            @ py_str L (dict_get fc_result (asc ''correct_info'') (PyStr []))
                      in (c\<lparr>red_flags := red_flags c @ [flag]\<rparr>, [FactCheck user_msg], None))
                else (c, [FactCheck user_msg], None)
            | _ \<Rightarrow> (c, [FactCheck user_msg], Some AttributeError))
      else (c, [], None))"

text \<open>
  \<^verbatim>\<open>process\<close>, from its first line through the fact check. What follows in the source
  assembles the advice, calls the interviewer and logs the turn; it writes the
  transcript, the thought log and the turn log only. The result is the coach after the
  turn, the agent calls made, and the exception that ended the turn, if any. Right after
  the classifier, \<^verbatim>\<open>analysis.get("topic_detected")\<close> raises \<^verbatim>\<open>AttributeError\<close> on an
  analysis that is not a dictionary, before the difficulty step.
\<close>

definition process :: "pylib \<Rightarrow> turn_env \<Rightarrow> coach \<Rightarrow> ustring \<Rightarrow> coach \<times> event list \<times> error option" where
  "process L env c user_msg =
     (let c0 = c\<lparr>turn_num := turn_num c + 1\<rparr> in
      if list_ex (\<lambda>cmd. contains cmd (str_lower L user_msg)) stop_commands
      then gen_feedback c0
      else case mentor_analyze env of
        Inl e \<Rightarrow> (c0, [MentorAnalyze user_msg], Some e)
      | Inr analysis \<Rightarrow>
         (case detect_edge_case L user_msg analysis of
            Inl e \<Rightarrow> (c0, [MentorAnalyze user_msg], Some e)
          | Inr edge_case \<Rightarrow>
             (case analysis of
                PyDict d \<Rightarrow>
                  (case update_difficulty edge_case d c0 of
                     (c1, Some e) \<Rightarrow> (c1, [MentorAnalyze user_msg], Some e)
                   | (c1, None) \<Rightarrow>
                      (case escalate L (fact_llm env) d user_msg c1 of
                         (c2, calls, raised) \<Rightarrow> (c2, MentorAnalyze user_msg # calls, raised)))
              | _ \<Rightarrow> (c0, [MentorAnalyze user_msg], Some AttributeError))))"

section \<open>The interview graph\<close>

text \<open>
  The second controller of the repository: the nodes and routers of graph.py over the
  \<^verbatim>\<open>InterviewState\<close> of state.py. The record holds the keys that the routers and the
  mentor node decide on; the thought log, the skill and gap lists and the final feedback
  carry report text only. Three keys share their names with attributes of the coach and
  carry the suffix \<open>_g\<close> here.
\<close>

datatype message = HumanMessage ustring | AIMessage ustring

record CandidateInfo =
  name :: ustring
  position :: ustring
  grade :: ustring
  experience :: ustring

record InterviewState =
  messages :: "message list"
  candidate :: CandidateInfo
  current_turn :: int
  topics_covered :: "ustring list"
  red_flags_g :: "ustring list"
  difficulty_level :: int
  correct_streak_g :: int
  difficulty_mode :: ustring
  difficulty_history_g :: "int list"
  interview_finished :: bool

text \<open>\<^verbatim>\<open>_grade_to_initial_difficulty\<close> (state.py)\<close>

definition grade_to_initial_difficulty :: "pylib \<Rightarrow> ustring option \<Rightarrow> int" where
  "grade_to_initial_difficulty L grade' =
     (let grade_lower = str_lower L (case grade' of None \<Rightarrow> [] | Some g \<Rightarrow> g) in
      if contains (asc ''senior'') grade_lower then 8
      else if contains (asc ''middle'') grade_lower then 6
      else if contains (asc ''junior+'') grade_lower
              \<or> contains (asc ''junior plus'') grade_lower then 5
      else if contains (asc ''junior'') grade_lower then 3
      else 2)"

text \<open>\<^verbatim>\<open>a or b\<close> for two optional strings: \<open>a\<close> unless it is \<^verbatim>\<open>None\<close> or empty.\<close>

definition py_or :: "ustring option \<Rightarrow> ustring option \<Rightarrow> ustring option" where
  "py_or a b = (if a = None \<or> a = Some [] then b else a)"

text \<open>
  \<^verbatim>\<open>create_initial_state\<close> (state.py), with its keyword arguments in the order of the
  source. It raises \<^verbatim>\<open>ValueError\<close> on a missing name, position, experience or grade.
\<close>

definition create_initial_state ::
  "pylib \<Rightarrow> ustring option \<Rightarrow> ustring option \<Rightarrow> ustring option \<Rightarrow> ustring option \<Rightarrow>
   ustring option \<Rightarrow> ustring option \<Rightarrow> ustring option \<Rightarrow> ustring \<Rightarrow> int option \<Rightarrow>
   error + InterviewState" where
  "create_initial_state L candidate_name name' position' pos grade' experience' exp'
       difficulty_mode' initial_difficulty_level =
     (let resolved_name = py_or candidate_name name';
          resolved_pos = py_or position' pos;
          resolved_exp = py_or experience' exp'
      in if resolved_name = None \<or> resolved_name = Some []
            \<or> resolved_pos = None \<or> resolved_pos = Some [] \<or> resolved_exp = None
         then Inl ValueError
         else if grade' = None \<or> grade' = Some [] then Inl ValueError
         else (let difficulty_level' =
                     (case initial_difficulty_level of
                        None \<Rightarrow> grade_to_initial_difficulty L grade'
                      | Some n \<Rightarrow> max 1 (min 10 n))
               in Inr \<lparr>messages = [],
                       candidate = \<lparr>name = the resolved_name, position = the resolved_pos,
                                    grade = the grade', experience = the resolved_exp\<rparr>,
                       current_turn = 0,
                       topics_covered = [],
                       red_flags_g = [],
                       difficulty_level = difficulty_level',
                       correct_streak_g = 0,
                       difficulty_mode = difficulty_mode',
                       difficulty_history_g = [difficulty_level'],
                       interview_finished = False\<rparr>))"

text \<open>
  \<^verbatim>\<open>FactCheckerAgent.check\<close> of agents/agents.py, on the answer of the language model (or
  the exception of the call): a text that does not parse gives a record whose
  \<^verbatim>\<open>is_true\<close> is \<^verbatim>\<open>None\<close>.
\<close>

definition agents_check :: "pylib \<Rightarrow> error + ustring \<Rightarrow> error + pyval" where
  "agents_check L resp =
     (case resp of
        Inl e \<Rightarrow> Inl e
      | Inr content \<Rightarrow>
          Inr (case json_loads L content of
                 Some result \<Rightarrow> result
               | None \<Rightarrow> PyDict [(asc ''is_true'', PyNone),
                                   (asc ''explanation'', PyStr (asc ''Could not verify'')),
                                   (asc ''correct_info'', PyStr [])]))"

text \<open>
  \<^verbatim>\<open>for flag in mentor_flags\<close>: a list gives its items, a string its characters, a
  dictionary its keys; any other value is not iterable.
\<close>

definition py_iter :: "pyval \<Rightarrow> error + pyval list" where
  "py_iter v =
     (case v of
        PyList xs \<Rightarrow> Inr xs
      | PyStr s \<Rightarrow> Inr (map (\<lambda>c. PyStr [c]) s)
      | PyDict kvs \<Rightarrow> Inr (map (\<lambda>kv. PyStr (fst kv)) kvs)
      | _ \<Rightarrow> Inl TypeError)"

text \<open>\<^verbatim>\<open>x or d\<close> for a value.\<close>

definition or_else :: "pyval \<Rightarrow> pyval \<Rightarrow> pyval" where
  "or_else v d = (if truthy v then v else d)"

text \<open>\<^verbatim>\<open>v.lower()\<close> and \<^verbatim>\<open>v.strip()\<close> exist on strings only.\<close>

definition lower_of :: "pylib \<Rightarrow> pyval \<Rightarrow> error + ustring" where
  "lower_of L v = (case v of PyStr s \<Rightarrow> Inr (str_lower L s) | _ \<Rightarrow> Inl AttributeError)"

definition strip_of :: "pylib \<Rightarrow> pyval \<Rightarrow> error + ustring" where
  "strip_of L v = (case v of PyStr s \<Rightarrow> Inr (strip L s) | _ \<Rightarrow> Inl AttributeError)"

text \<open>\<^verbatim>\<open>v[:50]\<close> exists on strings and lists.\<close>

definition sliceable :: "pyval \<Rightarrow> bool" where
  "sliceable v = (case v of PyStr s \<Rightarrow> True | PyList xs \<Rightarrow> True | _ \<Rightarrow> False)"

text \<open>\<^verbatim>\<open>isinstance(score, (int, float)) and score >= k\<close>, and the same with \<^verbatim>\<open><=\<close>.\<close>

definition number_ge :: "pyval \<Rightarrow> rat \<Rightarrow> bool" where
  "number_ge v k = (case as_number v of None \<Rightarrow> False | Some f \<Rightarrow> float_ge f k)"

definition number_le :: "pyval \<Rightarrow> rat \<Rightarrow> bool" where
  "number_le v k = (case as_number v of None \<Rightarrow> False | Some f \<Rightarrow> float_le f k)"

text \<open>
  The tokens that mark a red flag of the mentor as a hallucination ("gallyu", "hallucin",
  "lozhn", "false fact", "factually"), the words for a high confidence ("high", "vysok",
  "vysokii", "vysokaya"), and the red flag of a failed fact check.
\<close>

definition hallucination_tokens :: "ustring list" where
  "hallucination_tokens = [
     [1075, 1072, 1083, 1083, 1102],
     [104, 97, 108, 108, 117, 99, 105, 110],
     [1083, 1086, 1078, 1085],
     [102, 97, 108, 115, 101, 32, 102, 97, 99, 116],
     [102, 97, 99, 116, 117, 97, 108, 108, 121]]"

definition high_confidence_words :: "ustring list" where
  "high_confidence_words = [
     [104, 105, 103, 104],
     [1074, 1099, 1089, 1086, 1082],
     [1074, 1099, 1089, 1086, 1082, 1080, 1081],
     [1074, 1099, 1089, 1086, 1082, 1072, 1103]]"

definition gflag_head :: "ustring" where
  "gflag_head =
     [1043, 1040, 1051, 1051, 1070, 1062, 1048, 1053, 1040, 1062, 1048, 1071, 47, 1051,
      1054, 1046, 1053, 1067, 1049, 32, 1060, 1040, 1050, 1058, 58, 32]"

definition gflag_mid :: "ustring" where
  "gflag_mid =
     [46, 32, 1055, 1088, 1072, 1074, 1080, 1083, 1100, 1085, 1072, 1103, 32, 1080, 1085,
      1092, 1086, 1088, 1084, 1072, 1094, 1080, 1103, 58, 32]"

text \<open>
  What the mentor node receives from outside: the value \<^verbatim>\<open>mentor.analyze\<close> returns (the
  result of \<^verbatim>\<open>json.loads\<close>, or its default record) or the exception it raises, and the
  answer of the language model to the fact check.
\<close>

record node_env =
  mentor_result :: "error + pyval"
  fact_response :: "error + ustring"

text \<open>The content of the last \<^verbatim>\<open>HumanMessage\<close>, if there is one.\<close>

definition last_user_message :: "message list \<Rightarrow> ustring option" where
  "last_user_message ms =
     (case rev (concat (map (\<lambda>m. case m of HumanMessage s \<Rightarrow> [s] | AIMessage s \<Rightarrow> []) ms)) of
        [] \<Rightarrow> None
      | s # rest \<Rightarrow> Some s)"

text \<open>
  The escalation gate of the mentor node: \<^verbatim>\<open>should_fact_check\<close>, computed from the
  analysis and the last message; \<^verbatim>\<open>TypeError\<close> when the red flags are not iterable.
\<close>

definition should_fact_check :: "pylib \<Rightarrow> pydict \<Rightarrow> ustring \<Rightarrow> error + bool" where
  "should_fact_check L analysis last_msg =
     (let mentor_flags = or_else (dict_get analysis (asc ''red_flags'') PyNone) (PyList []);
          confidence_level =
            str_lower L (py_str L (or_else (dict_get analysis (asc ''confidence_level'') PyNone)
                                           (PyStr [])));
          correctness_score = dict_get analysis (asc ''correctness_score'') PyNone;
          is_correct = dict_get analysis (asc ''is_correct'') PyNone;
          is_hallucination = truthy (dict_get analysis (asc ''is_hallucination'') PyNone)
      in case py_iter mentor_flags of
           Inl e \<Rightarrow> Inl e
         | Inr flags \<Rightarrow>
            (let has_hallucination_hint =
                   list_ex (\<lambda>flag. list_ex (\<lambda>token. contains token (str_lower L (py_str L flag)))
                                            hallucination_tokens) flags;
                 is_high_confidence = (confidence_level \<in> set high_confidence_words);
                 is_low_score = number_le correctness_score 40;
                 is_confidently_wrong =
                   (is_high_confidence \<and> (is_correct = PyBool False \<or> is_low_score))
             in Inr (is_hallucination \<or> has_hallucination_hint \<or> is_confidently_wrong
                     \<or> contains (asc ''python 4'') (str_lower L last_msg))))"

text \<open>
  The adaptive block of the mentor node: from the level (already clamped), the streak
  and the trajectory to the new ones; \<^verbatim>\<open>AttributeError\<close> when the recommendation is a
  truthy value that is not a string.
\<close>

definition adapt :: "pylib \<Rightarrow> pydict \<Rightarrow> int \<Rightarrow> int \<Rightarrow> int list \<Rightarrow> error + int \<times> int \<times> int list" where
  "adapt L analysis difficulty_level' correct_streak' difficulty_history' =
     (let old_difficulty = difficulty_level';
          correctness_score = dict_get analysis (asc ''correctness_score'') PyNone;
          is_correct = dict_get analysis (asc ''is_correct'') PyNone
      in case lower_of L (or_else (dict_get analysis (asc ''difficulty_recommendation'') PyNone)
                                  (PyStr (asc ''maintain''))) of
           Inl e \<Rightarrow> Inl e
         | Inr recommendation \<Rightarrow>
            (let streak1 = (if is_correct = PyBool True \<and> number_ge correctness_score 80
                            then correct_streak' + 1 else 0);
                 (level2, streak2) =
                   (if recommendation = asc ''increase'' \<or> streak1 \<ge> 2
                    then (min 10 (difficulty_level' + 1), 0)
                    else if recommendation = asc ''decrease''
                    then (max 1 (difficulty_level' - 1), streak1)
                    else if number_le correctness_score 40
                    then (max 1 (difficulty_level' - 1), streak1)
                    else (difficulty_level', streak1))
             in Inr (level2, streak2,
                     if level2 \<noteq> old_difficulty then difficulty_history' @ [level2]
                     else difficulty_history')))"

text \<open>
  The fact check of the mentor node, run when the gate fires: the red flags to add. A
  flag is added when \<^verbatim>\<open>fact_result.get("is_true") is False\<close>; \<^verbatim>\<open>get\<close> raises
  \<^verbatim>\<open>AttributeError\<close> on a result that is not a dictionary.
\<close>

definition fact_check_flags :: "pylib \<Rightarrow> error + ustring \<Rightarrow> error + ustring list" where
  "fact_check_flags L resp =
     (case agents_check L resp of
        Inl e \<Rightarrow> Inl e
      | Inr (PyDict fact_result) \<Rightarrow>
          if dict_get fact_result (asc ''is_true'') PyNone = PyBool False
          then Inr [strip L (gflag_head
                             @ py_str L (dict_get fact_result (asc ''explanation'') (PyStr []))
                             @ gflag_mid
                             @ py_str L (dict_get fact_result (asc ''correct_info'') (PyStr [])))]
          else Inr []
      | Inr other \<Rightarrow> Inl AttributeError)"

text \<open>The topic step of the mentor node: the detected topic joins the covered ones.\<close>

definition node_topics :: "pylib \<Rightarrow> pydict \<Rightarrow> ustring list \<Rightarrow> error + ustring list" where
  "node_topics L analysis covered =
     (case strip_of L (or_else (dict_get analysis (asc ''topic_detected'') PyNone) (PyStr [])) of
        Inl e \<Rightarrow> Inl e
      | Inr topic_detected \<Rightarrow>
          Inr (if topic_detected \<noteq> [] \<and> topic_detected \<notin> set covered
               then covered @ [topic_detected] else covered))"

text \<open>
  The difficulty keys of the mentor node: the mode in lower case (\<^verbatim>\<open>"adaptive"\<close> when
  empty), the level read with \<^verbatim>\<open>int(... or 2)\<close> and clamped to 1..10, the streak, and the
  trajectory, which starts as the clamped level when it is empty. The adaptive block
  runs in the adaptive mode only.
\<close>

definition node_mode :: "pylib \<Rightarrow> InterviewState \<Rightarrow> ustring" where
  "node_mode L state =
     str_lower L (if difficulty_mode state = [] then asc ''adaptive'' else difficulty_mode state)"

definition node_level :: "InterviewState \<Rightarrow> int" where
  "node_level state =
     max 1 (min 10 (if difficulty_level state = 0 then 2 else difficulty_level state))"

definition node_history :: "InterviewState \<Rightarrow> int list" where
  "node_history state =
     (if difficulty_history_g state = [] then [node_level state] else difficulty_history_g state)"

definition node_difficulty :: "pylib \<Rightarrow> pydict \<Rightarrow> InterviewState \<Rightarrow> error + int \<times> int \<times> int list" where
  "node_difficulty L analysis state =
     (if node_mode L state = asc ''adaptive''
      then adapt L analysis (node_level state) (correct_streak_g state) (node_history state)
      else Inr (node_level state, correct_streak_g state, node_history state))"

text \<open>
  The end of the mentor node files the answer under the confirmed skills or the knowledge
  gaps and takes \<^verbatim>\<open>analysis.get("analysis", "")[:50]\<close> for it, which raises on a value
  that cannot be sliced.
\<close>

definition filing_raises :: "pydict \<Rightarrow> bool" where
  "filing_raises analysis =
     (let is_correct = dict_get analysis (asc ''is_correct'') PyNone in
      (truthy is_correct \<or> is_correct = PyBool False)
      \<and> \<not> sliceable (dict_get analysis (asc ''analysis'') (PyStr [])))"

text \<open>
  \<^verbatim>\<open>mentor_node\<close>. It returns the keys it updates, which the graph writes into the state;
  an exception leaves the state as it was. The result is the updated state or the
  exception, and the agent calls made. The first \<^verbatim>\<open>analysis.get\<close> raises
  \<^verbatim>\<open>AttributeError\<close> on an analysis that is not a dictionary.
\<close>

definition mentor_node ::
  "pylib \<Rightarrow> node_env \<Rightarrow> InterviewState \<Rightarrow> (error + InterviewState) \<times> event list" where
  "mentor_node L env state =
     (case last_user_message (messages state) of
        None \<Rightarrow> (Inr state, [])
      | Some last_msg \<Rightarrow>
         (case mentor_result env of
            Inl e \<Rightarrow> (Inl e, [MentorAnalyze last_msg])
          | Inr (PyDict analysis) \<Rightarrow>
             (case should_fact_check L analysis last_msg of
                Inl e \<Rightarrow> (Inl e, [MentorAnalyze last_msg])
              | Inr fire \<Rightarrow>
                 (let calls = (if fire then [MentorAnalyze last_msg, FactCheck last_msg]
                               else [MentorAnalyze last_msg])
                  in case (if fire then fact_check_flags L (fact_response env) else Inr []) of
                       Inl e \<Rightarrow> (Inl e, calls)
                     | Inr new_flags \<Rightarrow>
                        (case node_topics L analysis (topics_covered state) of
                           Inl e \<Rightarrow> (Inl e, calls)
                         | Inr topics \<Rightarrow>
                            (case node_difficulty L analysis state of
                               Inl e \<Rightarrow> (Inl e, calls)
                             | Inr (level', streak', history') \<Rightarrow>
                                if filing_raises analysis then (Inl TypeError, calls)
                                else (Inr (state\<lparr>red_flags_g := red_flags_g state @ new_flags,
                                                topics_covered := topics,
                                                difficulty_level := level',
                                                correct_streak_g := streak',
                                                difficulty_mode := node_mode L state,
                                                difficulty_history_g := history'\<rparr>),
                                      calls)))))
          | Inr other \<Rightarrow> (Inl AttributeError, [MentorAnalyze last_msg])))"

text \<open>
  \<^verbatim>\<open>should_continue\<close>, the router after the interviewer node. \<^verbatim>\<open>MAX_TURNS\<close> is a
  constant of config.py and a parameter here. The commands are "stop"
  in Russian, "stop", "zavershit'", "fidbek" and "feedback".
\<close>

datatype route = ToMentor | ToFeedback | ToEnd

definition stop_commands_graph :: "ustring list" where
  "stop_commands_graph = [[1089, 1090, 1086, 1087], [115, 116, 111, 112],
                          [1079, 1072, 1074, 1077, 1088, 1096, 1080, 1090, 1100],
                          [1092, 1080, 1076, 1073, 1101, 1082],
                          [102, 101, 101, 100, 98, 97, 99, 107]]"

definition should_continue :: "pylib \<Rightarrow> int \<Rightarrow> InterviewState \<Rightarrow> route" where
  "should_continue L MAX_TURNS state =
     (if interview_finished state then ToEnd
      else if (case last_user_message (messages state) of
                 None \<Rightarrow> False
               | Some last_msg \<Rightarrow>
                   list_ex (\<lambda>cmd. contains cmd (str_lower L last_msg)) stop_commands_graph)
      then ToFeedback
      else if current_turn state \<ge> MAX_TURNS then ToFeedback
      else ToMentor)"

section \<open>Sessions\<close>

text \<open>
  A session of the coach: \<^verbatim>\<open>process\<close> once per candidate message, each with what the
  agents answer on that turn. A turn that ends in an exception leaves the coach as the
  exception found it, and the next message is processed from there.
\<close>

fun run_turns :: "pylib \<Rightarrow> coach \<Rightarrow> (turn_env \<times> ustring) list \<Rightarrow> coach" where
  "run_turns L c [] = c"
| "run_turns L c (t # ts) = run_turns L (fst (process L (fst t) c (snd t))) ts"

text \<open>
  The states a session of the graph can be in: the state \<^verbatim>\<open>create_initial_state\<close> builds,
  a state the mentor node has updated, and a state whose messages, turn counter and
  termination flag were written meanwhile (by main.py and by the other two nodes, which
  write no other key of the model).
\<close>

inductive reachable :: "pylib \<Rightarrow> InterviewState \<Rightarrow> bool" for L :: pylib where
  created:
    "create_initial_state L candidate_name name' position' pos grade' experience' exp'
        mode initial_difficulty_level = Inr s \<Longrightarrow> reachable L s"
| analysed:
    "reachable L s \<Longrightarrow> fst (mentor_node L env s) = Inr s' \<Longrightarrow> reachable L s'"
| advanced:
    "reachable L s \<Longrightarrow>
     reachable L (s\<lparr>messages := ms, current_turn := t, interview_finished := f\<rparr>)"

section \<open>A library for the examples\<close>

text \<open>
  The examples below run the model on a small library: lower case for the Latin and the
  Russian alphabet, the whitespace of ASCII and Latin-1, and a \<^verbatim>\<open>json.loads\<close> that knows
  four texts: the empty object, the two answers of a fact check, and the list
  \<^verbatim>\<open>[1, 2]\<close>.
\<close>

definition simple_lower :: "ustring \<Rightarrow> ustring" where
  "simple_lower s = map (\<lambda>c. if 65 \<le> c \<and> c \<le> 90 then c + 32
                              else if 1040 \<le> c \<and> c \<le> 1071 then c + 32
                              else if c = 1025 then 1105
                              else c) s"

definition simple_isspace :: "nat \<Rightarrow> bool" where
  "simple_isspace c = ((9 \<le> c \<and> c \<le> 13) \<or> (28 \<le> c \<and> c \<le> 32) \<or> c = 133 \<or> c = 160)"

text \<open>\<^verbatim>\<open>{"is_true": true}\<close> and \<^verbatim>\<open>{"is_true": false}\<close>\<close>

definition text_is_true :: "ustring" where
  "text_is_true = [123, 34, 105, 115, 95, 116, 114, 117, 101, 34, 58, 32, 116, 114, 117, 101, 125]"

definition text_is_false :: "ustring" where
  "text_is_false = [123, 34, 105, 115, 95, 116, 114, 117, 101, 34, 58, 32, 102, 97, 108, 115, 101, 125]"

text \<open>\<^verbatim>\<open>[1, 2]\<close>\<close>

definition text_list :: "ustring" where
  "text_list = [91, 49, 44, 32, 50, 93]"

definition simple_loads :: "ustring \<Rightarrow> pyval option" where
  "simple_loads s =
     (if s = [123, 125] then Some (PyDict [])
      else if s = text_is_true then Some (PyDict [(asc ''is_true'', PyBool True)])
      else if s = text_is_false then Some (PyDict [(asc ''is_true'', PyBool False)])
      else if s = text_list then Some (PyList [PyInt 1, PyInt 2])
      else None)"

definition test_lib :: pylib where
  "test_lib = \<lparr>str_lower = simple_lower, isspace = simple_isspace,
                json_loads = simple_loads, py_repr = (\<lambda>v. [63])\<rparr>"

text \<open>
  \<^verbatim>\<open>str.lower\<close> turns the capital I with a dot above (U+0130) into two code points, a
  small i and the combining dot above (U+0069, U+0307), so a lower-cased string can be
  longer than the string. The same library with a lower case that does this:
\<close>

definition dotted_lower :: "ustring \<Rightarrow> ustring" where
  "dotted_lower s = concat (map (\<lambda>c. if c = 304 then [105, 775] else simple_lower [c]) s)"

definition dotted_lib :: pylib where
  "dotted_lib = test_lib\<lparr>str_lower := dotted_lower\<rparr>"

text \<open>
  Inputs of the examples: a coach and a graph state started for a Junior, a turn
  environment whose mentor returns a given analysis, an analysis that praises the answer
  and asks for a harder question, and the messages "Ne znayu" (I do not know) and
  "Otvali" (get lost).
\<close>

definition junior_coach :: coach where
  "junior_coach = start test_lib (asc ''Junior'') coach_init"

definition env_of :: "pydict \<Rightarrow> turn_env" where
  "env_of analysis = \<lparr>mentor_analyze = Inr (PyDict analysis),
                      fact_llm = (\<lambda>attempt prompt t. Inl LLMError)\<rparr>"

definition analysis_strong :: pydict where
  "analysis_strong = [(asc ''is_correct'', PyBool True), (asc ''correctness_score'', PyInt 95),
                      (asc ''difficulty_recommendation'', PyStr (asc ''increase''))]"

definition msg_dont_know :: ustring where
  "msg_dont_know = [1053, 1077, 32, 1079, 1085, 1072, 1102]"

definition msg_rude :: ustring where
  "msg_rude = [1054, 1090, 1074, 1072, 1083, 1080]"

definition junior_state :: InterviewState where
  "junior_state = \<lparr>messages = [],
                    candidate = \<lparr>name = asc ''Alex'', position = asc ''Backend Developer'',
                                 grade = asc ''Junior'', experience = asc ''Django''\<rparr>,
                    current_turn = 0, topics_covered = [], red_flags_g = [],
                    difficulty_level = 3, correct_streak_g = 0,
                    difficulty_mode = asc ''adaptive'', difficulty_history_g = [3],
                    interview_finished = False\<rparr>"

text \<open>
  More inputs: an answer without any trigger, the closing message of main.py ("Stop igra.
  Davai fidbek."), a message about Python 4.0, and a text that is no JSON; analyses of a
  good answer, of a failed one, of a wrong answer with the recommendation to increase,
  of a hallucination, and one whose hallucination flag is false; the graph state after
  the candidate has sent a message; a language model that answers with prose first and
  with a JSON object on the retry.
\<close>

definition msg_answer :: ustring where
  "msg_answer = asc ''a list is mutable''"

definition msg_stop :: ustring where
  "msg_stop = [1057, 1090, 1086, 1087, 32, 1080, 1075, 1088, 1072, 46, 32, 1044, 1072, 1074,
               1072, 1081, 32, 1092, 1080, 1076, 1073, 1101, 1082, 46]"

definition msg_python4 :: ustring where
  "msg_python4 = [1042, 32, 80, 121, 116, 104, 111, 110, 32, 52, 46, 48, 32, 1094, 1080,
                  1082, 1083, 1099, 32, 102, 111, 114, 32, 1091, 1073, 1077, 1088, 1091, 1090]"

definition prose :: ustring where
  "prose = [73, 32, 97, 109, 32, 110, 111, 116, 32, 115, 117, 114, 101, 46]"

definition analysis_good :: pydict where
  "analysis_good = [(asc ''is_correct'', PyBool True), (asc ''correctness_score'', PyInt 85)]"

definition analysis_weak :: pydict where
  "analysis_weak = [(asc ''is_correct'', PyBool False), (asc ''correctness_score'', PyInt 0)]"

definition analysis_wrong_increase :: pydict where
  "analysis_wrong_increase =
     [(asc ''is_correct'', PyBool False), (asc ''correctness_score'', PyInt 50),
      (asc ''difficulty_recommendation'', PyStr (asc ''increase''))]"

definition analysis_hallucination :: pydict where
  "analysis_hallucination = [(asc ''is_hallucination'', PyBool True)]"

definition analysis_calm :: pydict where
  "analysis_calm = [(asc ''is_hallucination'', PyBool False)]"

definition junior_asked :: "ustring \<Rightarrow> InterviewState" where
  "junior_asked msg =
     junior_state\<lparr>messages := [AIMessage (asc ''hello''), HumanMessage msg], current_turn := 1\<rparr>"

definition node_env_of :: "pydict \<Rightarrow> node_env" where
  "node_env_of analysis = \<lparr>mentor_result = Inr (PyDict analysis), fact_response = Inr prose\<rparr>"



definition msg_secret :: ustring where
  "msg_secret = [1057, 1077, 1082, 1088, 1077, 1090]"

definition analysis_zero :: pydict where
  "analysis_zero = [(asc ''correctness_score'', PyInt 0)]"

definition msg_dotted :: ustring where
  "msg_dotted = [304, 304]"

definition llm_prose :: llm where
  "llm_prose attempt prompt t = Inr prose"

definition llm_empty_object :: llm where
  "llm_empty_object attempt prompt t = Inr [123, 125]"

definition llm_second_try :: llm where
  "llm_second_try attempt prompt t = (if attempt = 0 then Inr prose else Inr text_is_true)"

section \<open>Substrings\<close>

lemma is_prefix_iff: "is_prefix xs ys \<longleftrightarrow> (\<exists>zs. ys = xs @ zs)"
  by (induction xs ys rule: is_prefix.induct) auto

text \<open>\<open>contains\<close> is Python's \<^verbatim>\<open>in\<close> on strings: the needle stands somewhere in the text.\<close>

lemma contains_iff: "contains needle hay \<longleftrightarrow> (\<exists>before after. hay = before @ needle @ after)"
proof (induction hay)
  case Nil
  then show ?case by auto
next
  case (Cons y ys)
  show ?case
  proof
    assume "contains needle (y # ys)"
    then consider "is_prefix needle (y # ys)" | "contains needle ys" by auto
    then show "\<exists>before after. y # ys = before @ needle @ after"
    proof cases
      case 1
      then obtain zs where "y # ys = needle @ zs" by (auto simp: is_prefix_iff)
      then have "y # ys = [] @ needle @ zs" by simp
      then show ?thesis by blast
    next
      case 2
      with Cons.IH obtain b a where "ys = b @ needle @ a" by blast
      then have "y # ys = (y # b) @ needle @ a" by simp
      then show ?thesis by blast
    qed
  next
    assume "\<exists>before after. y # ys = before @ needle @ after"
    then obtain b a where e: "y # ys = b @ needle @ a" by blast
    show "contains needle (y # ys)"
    proof (cases b)
      case Nil
      with e have "is_prefix needle (y # ys)" by (auto simp: is_prefix_iff)
      then show ?thesis by simp
    next
      case (Cons b0 bs)
      with e have "ys = bs @ needle @ a" by simp
      with Cons.IH have "contains needle ys" by blast
      then show ?thesis by simp
    qed
  qed
qed

section \<open>Evaluating the examples\<close>

lemmas lib_defs =
  test_lib_def simple_lower_def simple_isspace_def simple_loads_def text_is_true_def
  text_is_false_def text_list_def asc_def strip_def lstrip_def rstrip_def

lemmas table_defs =
  silence_tokens_def dont_know_phrases_def rude_phrases_def troll_indicators_def
  stop_commands_def stop_commands_graph_def hallucination_tokens_def
  high_confidence_words_def

lemma junior_coach_eq:
  "junior_coach = \<lparr>turn_num = 0, finished = False, difficulty = 3, correct_streak = 0,
                    difficulty_history = [3], red_flags = []\<rparr>"
  by (simp add: junior_coach_def start_def coach_init_def lib_defs Let_def)

lemma junior_state_created:
  "create_initial_state test_lib (Some (asc ''Alex'')) None (Some (asc ''Backend Developer''))
     None (Some (asc ''Junior'')) (Some (asc ''Django'')) None (asc ''adaptive'') None
   = Inr junior_state"
  by (simp add: create_initial_state_def py_or_def grade_to_initial_difficulty_def
      junior_state_def lib_defs Let_def)





section \<open>The steps of a turn of the coach\<close>

lemma adjust_difficulty_range:
  assumes "1 \<le> difficulty c" "difficulty c \<le> 10"
  shows "1 \<le> difficulty (fst (adjust_difficulty a c))
         \<and> difficulty (fst (adjust_difficulty a c)) \<le> 10"
  using assms
  by (auto simp: adjust_difficulty_def Let_def split: sum.splits if_splits)

lemma update_difficulty_range:
  assumes "1 \<le> difficulty c" "difficulty c \<le> 10"
  shows "1 \<le> difficulty (fst (update_difficulty e a c))
         \<and> difficulty (fst (update_difficulty e a c)) \<le> 10"
  using assms adjust_difficulty_range[OF assms, of a]
  by (simp add: update_difficulty_def Let_def)

text \<open>The escalation step writes the red flags and nothing else.\<close>

lemma escalate_frame:
  "difficulty (fst (escalate L f a m c)) = difficulty c"
  "correct_streak (fst (escalate L f a m c)) = correct_streak c"
  "difficulty_history (fst (escalate L f a m c)) = difficulty_history c"
  "turn_num (fst (escalate L f a m c)) = turn_num c"
  "finished (fst (escalate L f a m c)) = finished c"
  by (simp_all add: escalate_def Let_def split: pyval.splits)

lemma process_stop:
  "list_ex (\<lambda>cmd. contains cmd (str_lower L msg)) stop_commands \<Longrightarrow>
   process L env c msg
   = (c\<lparr>turn_num := turn_num c + 1, finished := True\<rparr>, [FeedbackGenerate], None)"
  by (simp add: process_def gen_feedback_def)

lemma process_mentor_raises:
  "\<not> list_ex (\<lambda>cmd. contains cmd (str_lower L msg)) stop_commands \<Longrightarrow>
   mentor_analyze env = Inl e \<Longrightarrow>
   process L env c msg = (c\<lparr>turn_num := turn_num c + 1\<rparr>, [MentorAnalyze msg], Some e)"
  by (simp add: process_def)

lemma process_detect_raises:
  "\<not> list_ex (\<lambda>cmd. contains cmd (str_lower L msg)) stop_commands \<Longrightarrow>
   mentor_analyze env = Inr a \<Longrightarrow> detect_edge_case L msg a = Inl e \<Longrightarrow>
   process L env c msg = (c\<lparr>turn_num := turn_num c + 1\<rparr>, [MentorAnalyze msg], Some e)"
  by (simp add: process_def)

text \<open>
  On an analysed turn the level, the streak and the trajectory are those the difficulty
  step leaves, whether or not the turn ends in an exception.
\<close>

text \<open>
  An analysis that is not a dictionary ends the turn at \<^verbatim>\<open>analysis.get("topic_detected")\<close>,
  with nothing written but the turn number.
\<close>

lemma process_not_dict:
  "\<not> list_ex (\<lambda>cmd. contains cmd (str_lower L msg)) stop_commands \<Longrightarrow>
   mentor_analyze env = Inr v \<Longrightarrow> detect_edge_case L msg v = Inr e \<Longrightarrow>
   \<forall>d. v \<noteq> PyDict d \<Longrightarrow>
   process L env c msg
   = (c\<lparr>turn_num := turn_num c + 1\<rparr>, [MentorAnalyze msg], Some AttributeError)"
  by (cases v) (simp_all add: process_def)

lemma process_analysed:
  assumes "\<not> list_ex (\<lambda>cmd. contains cmd (str_lower L msg)) stop_commands"
    and "mentor_analyze env = Inr (PyDict a)" and "detect_edge_case L msg (PyDict a) = Inr e"
  shows "difficulty (fst (process L env c msg))
         = difficulty (fst (update_difficulty e a (c\<lparr>turn_num := turn_num c + 1\<rparr>)))"
    and "correct_streak (fst (process L env c msg))
         = correct_streak (fst (update_difficulty e a (c\<lparr>turn_num := turn_num c + 1\<rparr>)))"
    and "difficulty_history (fst (process L env c msg))
         = difficulty_history (fst (update_difficulty e a (c\<lparr>turn_num := turn_num c + 1\<rparr>)))"
proof -
  obtain c1 r where u: "update_difficulty e a (c\<lparr>turn_num := turn_num c + 1\<rparr>) = (c1, r)"
    by (cases "update_difficulty e a (c\<lparr>turn_num := turn_num c + 1\<rparr>)")
  obtain c2 calls raised where esc: "escalate L (fact_llm env) a msg c1 = (c2, calls, raised)"
    by (cases "escalate L (fact_llm env) a msg c1")
  have c2: "c2 = fst (escalate L (fact_llm env) a msg c1)"
    using esc by simp
  have p: "fst (process L env c msg) = (case r of Some x \<Rightarrow> c1 | None \<Rightarrow> c2)"
    using assms u esc by (simp add: process_def split: option.splits)
  show "difficulty (fst (process L env c msg))
        = difficulty (fst (update_difficulty e a (c\<lparr>turn_num := turn_num c + 1\<rparr>)))"
    unfolding p u c2 by (simp add: escalate_frame split: option.splits)
  show "correct_streak (fst (process L env c msg))
        = correct_streak (fst (update_difficulty e a (c\<lparr>turn_num := turn_num c + 1\<rparr>)))"
    unfolding p u c2 by (simp add: escalate_frame split: option.splits)
  show "difficulty_history (fst (process L env c msg))
        = difficulty_history (fst (update_difficulty e a (c\<lparr>turn_num := turn_num c + 1\<rparr>)))"
    unfolding p u c2 by (simp add: escalate_frame split: option.splits)
qed

section \<open>The difficulty level stays between 1 and 10\<close>

lemma process_range:
  assumes "1 \<le> difficulty c" "difficulty c \<le> 10"
  shows "1 \<le> difficulty (fst (process L env c msg))
         \<and> difficulty (fst (process L env c msg)) \<le> 10"
proof (cases "list_ex (\<lambda>cmd. contains cmd (str_lower L msg)) stop_commands")
  case True
  then show ?thesis using assms by (simp add: process_stop)
next
  case ns: False
  show ?thesis
  proof (cases "mentor_analyze env")
    case (Inl e)
    then show ?thesis using ns assms by (simp add: process_mentor_raises)
  next
    case an: (Inr v)
    show ?thesis
    proof (cases "detect_edge_case L msg v")
      case (Inl e)
      then show ?thesis using ns an assms by (simp add: process_detect_raises)
    next
      case det: (Inr e)
      show ?thesis
      proof (cases "\<exists>d. v = PyDict d")
        case True
        then obtain a where v: "v = PyDict a" by blast
        have "1 \<le> difficulty (c\<lparr>turn_num := turn_num c + 1\<rparr>)"
          and "difficulty (c\<lparr>turn_num := turn_num c + 1\<rparr>) \<le> 10"
          using assms by simp_all
        from update_difficulty_range[OF this] show ?thesis
          by (simp add: process_analysed(1)[OF ns an[unfolded v] det[unfolded v]])
      next
        case False
        then show ?thesis using assms by (simp add: process_not_dict[OF ns an det])
      qed
    qed
  qed
qed

lemma run_turns_range:
  "1 \<le> difficulty c \<Longrightarrow> difficulty c \<le> 10 \<Longrightarrow>
   1 \<le> difficulty (run_turns L c ts) \<and> difficulty (run_turns L c ts) \<le> 10"
proof (induction ts arbitrary: c)
  case Nil
  then show ?case by simp
next
  case (Cons t ts)
  from process_range[OF Cons.prems, of L "fst t" "snd t"]
  show ?case using Cons.IH by simp
qed

lemma start_range: "1 \<le> difficulty (start L g c) \<and> difficulty (start L g c) \<le> 10"
  by (simp add: start_def Let_def)

lemma grade_to_initial_difficulty_range:
  "1 \<le> grade_to_initial_difficulty L g \<and> grade_to_initial_difficulty L g \<le> 10"
  by (simp add: grade_to_initial_difficulty_def Let_def)

lemma create_initial_state_level:
  assumes "create_initial_state L cn n p ps g ex ex' mode lvl = Inr s"
  shows "difficulty_level s
         = (case lvl of None \<Rightarrow> grade_to_initial_difficulty L g | Some n \<Rightarrow> max 1 (min 10 n))"
    and "difficulty_history_g s = [difficulty_level s]"
    and "correct_streak_g s = 0"
  using assms by (auto simp: create_initial_state_def Let_def split: if_splits)

lemma create_initial_state_range:
  assumes "create_initial_state L cn n p ps g ex ex' mode lvl = Inr s"
  shows "1 \<le> difficulty_level s \<and> difficulty_level s \<le> 10"
  using grade_to_initial_difficulty_range[of L g]
  by (cases lvl) (auto simp: create_initial_state_level(1)[OF assms])

lemma node_level_range: "1 \<le> node_level s \<and> node_level s \<le> 10"
  by (simp add: node_level_def)

lemma adapt_range:
  assumes "adapt L a l st h = Inr (l', st', h')" "1 \<le> l" "l \<le> 10"
  shows "1 \<le> l' \<and> l' \<le> 10"
  using assms by (auto simp: adapt_def Let_def split: sum.splits if_splits)

lemma node_difficulty_range:
  assumes "node_difficulty L a s = Inr (l', st', h')"
  shows "1 \<le> l' \<and> l' \<le> 10"
proof (cases "node_mode L s = asc ''adaptive''")
  case True
  with assms
  have "adapt L a (node_level s) (correct_streak_g s) (node_history s) = Inr (l', st', h')"
    by (simp add: node_difficulty_def)
  from adapt_range[OF this] node_level_range[of s] show ?thesis by simp
next
  case False
  with assms have "l' = node_level s" by (simp add: node_difficulty_def)
  then show ?thesis using node_level_range[of s] by simp
qed

lemma mentor_node_idle:
  "last_user_message (messages s) = None \<Longrightarrow> mentor_node L env s = (Inr s, [])"
  by (simp add: mentor_node_def)

text \<open>What the mentor node returns comes from the difficulty keys it computed.\<close>

lemma mentor_node_returns:
  assumes "fst (mentor_node L env s) = Inr s'" "last_user_message (messages s) = Some m"
  shows "\<exists>a l st h. mentor_result env = Inr (PyDict a) \<and> node_difficulty L a s = Inr (l, st, h) \<and>
           difficulty_level s' = l \<and> correct_streak_g s' = st \<and> difficulty_history_g s' = h"
  using assms
  by (auto simp: mentor_node_def Let_def split: sum.splits if_splits prod.splits pyval.splits)

lemma mentor_node_range:
  assumes "fst (mentor_node L env s) = Inr s'"
    and "1 \<le> difficulty_level s" "difficulty_level s \<le> 10"
  shows "1 \<le> difficulty_level s' \<and> difficulty_level s' \<le> 10"
proof (cases "last_user_message (messages s)")
  case None
  then show ?thesis using assms by (simp add: mentor_node_idle)
next
  case (Some m)
  from mentor_node_returns[OF assms(1) Some] node_difficulty_range show ?thesis by blast
qed

lemma reachable_range:
  "reachable L s \<Longrightarrow> 1 \<le> difficulty_level s \<and> difficulty_level s \<le> 10"
proof (induction rule: reachable.induct)
  case (created candidate_name name' position' pos grade' experience' exp' mode lvl s)
  then show ?case by (rule create_initial_state_range)
next
  case (analysed s env s')
  then show ?case using mentor_node_range by blast
next
  case (advanced s ms t f)
  then show ?case by simp
qed

text \<open>
  Claim C1. In every session the difficulty level is an integer between 1 and 10 after
  the start and after every processed turn. For the coach: after \<^verbatim>\<open>start\<close> with any
  grade and after any sequence of turns, whatever the agents answer and whether or not
  a turn ends in an exception. For the graph: in the state \<^verbatim>\<open>create_initial_state\<close>
  builds, from the grade or from an explicitly supplied level, and in every state
  reached from it through the mentor node.
\<close>

theorem difficulty_level_in_range:
  "(1 \<le> difficulty (run_turns L (start L g coach_init) ts)
    \<and> difficulty (run_turns L (start L g coach_init) ts) \<le> 10)
   \<and> (reachable L s \<longrightarrow> 1 \<le> difficulty_level s \<and> difficulty_level s \<le> 10)"
  using run_turns_range[OF conjunct1[OF start_range] conjunct2[OF start_range]] reachable_range
  by blast

theorem difficulty_level_in_range_witness:
  "reachable test_lib junior_state
   \<and> 1 \<le> difficulty_level junior_state \<and> difficulty_level junior_state \<le> 10
   \<and> 1 \<le> difficulty (run_turns test_lib (start test_lib (asc ''Junior'') coach_init)
                        [(env_of analysis_strong, msg_dont_know)])"
proof -
  have r: "reachable test_lib junior_state"
    using junior_state_created by (rule reachable.created)
  from difficulty_level_in_range[of test_lib "asc ''Junior''"
      "[(env_of analysis_strong, msg_dont_know)]" junior_state] r
  show ?thesis by simp
qed

section \<open>Edge cases override the scoring\<close>

text \<open>
  The mentor never returns a falsy value, and it returns the list a language model
  answers with.
\<close>

lemma analyze_truthy: "truthy (MentorAgent_analyze L call_llm prompt)"
  by (simp add: MentorAgent_analyze_def default_analysis_def Let_def)





section \<open>The precedence of the edge cases\<close>

lemma detect_edge_case_silence:
  "length (strip L (str_lower L msg)) < 3 \<or> strip L (str_lower L msg) \<in> set silence_tokens \<Longrightarrow>
   detect_edge_case L msg v = Inr (Some Silence)"
  by (auto simp: detect_edge_case_def Let_def)

text \<open>
  On an analysis that is no dictionary the classifier answers from the text as far as
  the phrase test of the second rule and raises at the first \<^verbatim>\<open>get\<close>.
\<close>

lemma detect_edge_case_not_dict:
  assumes "\<forall>d. v \<noteq> PyDict d"
    and "\<not> (length (strip L (str_lower L msg)) < 3
            \<or> strip L (str_lower L msg) \<in> set silence_tokens)"
  shows "detect_edge_case L msg v
         = (if list_ex (\<lambda>phrase. contains phrase (strip L (str_lower L msg))) dont_know_phrases
            then Inr (Some DontKnow) else Inl AttributeError)"
  using assms by (cases v) (simp_all add: detect_edge_case_def Let_def)

lemma py_lt_values: "py_lt x k = Inr True \<or> py_lt x k = Inr False \<or> py_lt x k = Inl TypeError"
  by (auto simp: py_lt_def split: option.splits)

text \<open>
  Claim C6, with the length taken as the code takes it. The classifier is a function of
  the message and the analysis that gives at most one tag, trying silence, dont\_know,
  rude and troll in this order, the first match winning. With \<open>m\<close> the message in lower
  case and then trimmed (\<^verbatim>\<open>user_msg.lower().strip()\<close>): when \<open>m\<close> is shorter than 3 or is
  a filler token, the tag is silence for every analysis, so never dont\_know, rude or
  troll; otherwise it is dont\_know when a phrase or the flag says so; otherwise rude
  when a phrase or the flag says so; otherwise troll exactly when \<open>m\<close> is a trolling
  indicator or a short question, the score is a number below 10 and the candidate is not
  asking a question; and no tag in every other case, save that a score that is no number
  raises \<^verbatim>\<open>TypeError\<close> in the fourth rule. An analysis that is no dictionary gives
  silence or dont\_know from the text, or raises \<^verbatim>\<open>AttributeError\<close>.
\<close>

theorem edge_case_precedence:
  fixes L msg a
  defines "m \<equiv> strip L (str_lower L msg)"
  defines "silent \<equiv> length m < 3 \<or> m \<in> set silence_tokens"
  defines "unknowing \<equiv> list_ex (\<lambda>phrase. contains phrase m) dont_know_phrases
                          \<or> truthy (dict_get a (asc ''is_dont_know'') PyNone)"
  defines "hostile \<equiv> list_ex (\<lambda>phrase. contains phrase m) rude_phrases
                        \<or> truthy (dict_get a (asc ''is_rude'') PyNone)"
  defines "teasing \<equiv> m \<in> set troll_indicators \<or> (length m < 10 \<and> contains [63] m)"
  defines "low \<equiv> py_lt (dict_get a (asc ''correctness_score'') (PyInt 50)) 10"
  defines "asking \<equiv> truthy (dict_get a (asc ''is_question_from_candidate'') PyNone)"
  shows "(silent \<longrightarrow> (\<forall>v. detect_edge_case L msg v = Inr (Some Silence)))
       \<and> (\<not> silent \<and> unknowing \<longrightarrow> detect_edge_case L msg (PyDict a) = Inr (Some DontKnow))
       \<and> (\<not> silent \<and> \<not> unknowing \<and> hostile \<longrightarrow>
            detect_edge_case L msg (PyDict a) = Inr (Some Rude))
       \<and> (\<not> silent \<and> \<not> unknowing \<and> \<not> hostile \<and> teasing \<and> low = Inr True \<and> \<not> asking \<longrightarrow>
            detect_edge_case L msg (PyDict a) = Inr (Some Troll))
       \<and> (\<not> silent \<and> \<not> unknowing \<and> \<not> hostile \<and> teasing \<and> low = Inl TypeError \<longrightarrow>
            detect_edge_case L msg (PyDict a) = Inl TypeError)
       \<and> (\<not> silent \<and> \<not> unknowing \<and> \<not> hostile
           \<and> (\<not> teasing \<or> low = Inr False \<or> (low = Inr True \<and> asking)) \<longrightarrow>
            detect_edge_case L msg (PyDict a) = Inr None)
       \<and> (low = Inr True \<or> low = Inr False \<or> low = Inl TypeError)
       \<and> (detect_edge_case L msg (PyDict a) = Inr (Some Troll) \<longrightarrow>
            \<not> silent \<and> \<not> unknowing \<and> \<not> hostile \<and> teasing \<and> low = Inr True \<and> \<not> asking)
       \<and> (\<forall>v. (\<forall>d. v \<noteq> PyDict d) \<and> \<not> silent \<longrightarrow>
            detect_edge_case L msg v
            = (if list_ex (\<lambda>phrase. contains phrase m) dont_know_phrases
               then Inr (Some DontKnow) else Inl AttributeError))"
proof -
  have 1: "silent \<longrightarrow> (\<forall>v. detect_edge_case L msg v = Inr (Some Silence))"
    unfolding silent_def m_def using detect_edge_case_silence by blast
  have 2: "\<not> silent \<and> unknowing \<longrightarrow> detect_edge_case L msg (PyDict a) = Inr (Some DontKnow)"
    unfolding silent_def unknowing_def m_def
    by (auto simp: detect_edge_case_def Let_def)
  have 3: "\<not> silent \<and> \<not> unknowing \<and> hostile \<longrightarrow>
           detect_edge_case L msg (PyDict a) = Inr (Some Rude)"
    unfolding silent_def unknowing_def hostile_def m_def
    by (auto simp: detect_edge_case_def Let_def)
  have 4: "\<not> silent \<and> \<not> unknowing \<and> \<not> hostile \<and> teasing \<and> low = Inr True \<and> \<not> asking \<longrightarrow>
           detect_edge_case L msg (PyDict a) = Inr (Some Troll)"
    unfolding silent_def unknowing_def hostile_def teasing_def low_def asking_def m_def
    by (auto simp: detect_edge_case_def Let_def)
  have 5: "\<not> silent \<and> \<not> unknowing \<and> \<not> hostile \<and> teasing \<and> low = Inl TypeError \<longrightarrow>
           detect_edge_case L msg (PyDict a) = Inl TypeError"
    unfolding silent_def unknowing_def hostile_def teasing_def low_def asking_def m_def
    by (auto simp: detect_edge_case_def Let_def)
  have 6: "\<not> silent \<and> \<not> unknowing \<and> \<not> hostile
           \<and> (\<not> teasing \<or> low = Inr False \<or> (low = Inr True \<and> asking)) \<longrightarrow>
           detect_edge_case L msg (PyDict a) = Inr None"
    unfolding silent_def unknowing_def hostile_def teasing_def low_def asking_def m_def
    by (auto simp: detect_edge_case_def Let_def)
  have 7: "low = Inr True \<or> low = Inr False \<or> low = Inl TypeError"
    unfolding low_def by (rule py_lt_values)
  have 8: "detect_edge_case L msg (PyDict a) = Inr (Some Troll) \<longrightarrow>
           \<not> silent \<and> \<not> unknowing \<and> \<not> hostile \<and> teasing \<and> low = Inr True \<and> \<not> asking"
    unfolding silent_def unknowing_def hostile_def teasing_def low_def asking_def m_def
    by (auto simp: detect_edge_case_def Let_def split: sum.splits if_splits)
  have 9: "\<forall>v. (\<forall>d. v \<noteq> PyDict d) \<and> \<not> silent \<longrightarrow>
           detect_edge_case L msg v
           = (if list_ex (\<lambda>phrase. contains phrase m) dont_know_phrases
              then Inr (Some DontKnow) else Inl AttributeError)"
    unfolding silent_def m_def using detect_edge_case_not_dict by blast
  from 1 2 3 4 5 6 7 8 9 show ?thesis by blast
qed

theorem edge_case_precedence_witness:
  "length (strip test_lib (str_lower test_lib (asc ''OK''))) < 3
   \<and> detect_edge_case test_lib (asc ''OK'')
        (PyDict [(asc ''is_dont_know'', PyBool True), (asc ''is_rude'', PyBool True)])
      = Inr (Some Silence)
   \<and> detect_edge_case test_lib msg_secret (PyDict analysis_zero) = Inr (Some Troll)
   \<and> detect_edge_case test_lib msg_secret (PyDict ((asc ''is_rude'', PyBool True) # analysis_zero))
      = Inr (Some Rude)
   \<and> detect_edge_case test_lib msg_secret
        (PyDict ((asc ''is_dont_know'', PyBool True) # (asc ''is_rude'', PyBool True) # analysis_zero))
      = Inr (Some DontKnow)"
proof -
  have l: "length (strip test_lib (str_lower test_lib (asc ''OK''))) < 3"
    by (simp add: lib_defs)
  have s: "strip test_lib (str_lower test_lib msg_secret) = [1089, 1077, 1082, 1088, 1077, 1090]"
    by (simp add: msg_secret_def lib_defs)
  from edge_case_precedence[of test_lib "asc ''OK''" "[]"] l
  have "detect_edge_case test_lib (asc ''OK'')
          (PyDict [(asc ''is_dont_know'', PyBool True), (asc ''is_rude'', PyBool True)])
        = Inr (Some Silence)"
    by simp
  moreover from edge_case_precedence[of test_lib msg_secret analysis_zero]
  have "detect_edge_case test_lib msg_secret (PyDict analysis_zero) = Inr (Some Troll)"
    by (simp add: s analysis_zero_def dict_get_def py_lt_def asc_def table_defs)
  moreover from edge_case_precedence[of test_lib msg_secret
      "(asc ''is_rude'', PyBool True) # analysis_zero"]
  have "detect_edge_case test_lib msg_secret
          (PyDict ((asc ''is_rude'', PyBool True) # analysis_zero)) = Inr (Some Rude)"
    by (simp add: s analysis_zero_def dict_get_def py_lt_def asc_def table_defs)
  moreover from edge_case_precedence[of test_lib msg_secret
      "(asc ''is_dont_know'', PyBool True) # (asc ''is_rude'', PyBool True) # analysis_zero"]
  have "detect_edge_case test_lib msg_secret
          (PyDict ((asc ''is_dont_know'', PyBool True) # (asc ''is_rude'', PyBool True)
                   # analysis_zero)) = Inr (Some DontKnow)"
    by (simp add: s analysis_zero_def dict_get_def py_lt_def asc_def table_defs)
  ultimately show ?thesis using l by simp
qed

text \<open>
  Claim C6, as the specification has it, fails on the length. The message of two capital
  I with a dot above has the trimmed length 2; in lower case it has four code points, so
  the silence rule does not match, and with the flag \<^verbatim>\<open>is_dont_know\<close> the message is
  classified dont\_know.
\<close>

theorem dotted_capitals_are_not_silence:
  "length (strip dotted_lib msg_dotted) = 2
   \<and> strip dotted_lib (str_lower dotted_lib msg_dotted) = [105, 775, 105, 775]
   \<and> detect_edge_case dotted_lib msg_dotted (PyDict [(asc ''is_dont_know'', PyBool True)])
     = Inr (Some DontKnow)"
  by (simp add: detect_edge_case_def msg_dotted_def dotted_lib_def dotted_lower_def
      dict_get_def lib_defs table_defs)

section \<open>Termination commands\<close>

lemma should_continue_stop:
  assumes "\<not> interview_finished s" "last_user_message (messages s) = Some m"
    and "list_ex (\<lambda>cmd. contains cmd (str_lower L m)) stop_commands_graph"
  shows "should_continue L mx s = ToFeedback"
  using assms by (simp add: should_continue_def)

lemma msg_stop_is_stop:
  "list_ex (\<lambda>cmd. contains cmd (str_lower test_lib msg_stop)) stop_commands"
  "list_ex (\<lambda>cmd. contains cmd (str_lower test_lib msg_stop)) stop_commands_graph"
  by (simp_all add: msg_stop_def lib_defs table_defs)

text \<open>
  Claim C7. A message that contains a termination command goes straight to the feedback:
  the coach sets the termination flag and calls the feedback agent only, so neither the
  mentor nor the difficulty step nor the fact checker runs, and the level, the streak,
  the trajectory and the red flags stay as they were; the router of the graph, in a
  session that is not finished, sends the turn to the feedback node and not to the
  mentor node. Both hold on any turn, the first one included.
\<close>

theorem termination_command_goes_to_feedback:
  "(list_ex (\<lambda>cmd. contains cmd (str_lower L msg)) stop_commands \<longrightarrow>
      process L env c msg
      = (c\<lparr>turn_num := turn_num c + 1, finished := True\<rparr>, [FeedbackGenerate], None))
   \<and> (\<not> interview_finished s \<and> last_user_message (messages s) = Some m
       \<and> list_ex (\<lambda>cmd. contains cmd (str_lower L m)) stop_commands_graph
       \<longrightarrow> should_continue L max_turns s = ToFeedback)"
  by (simp add: process_stop should_continue_stop)

theorem termination_command_goes_to_feedback_witness:
  "turn_num junior_coach = 0
   \<and> process test_lib (env_of analysis_strong) junior_coach msg_stop
     = (junior_coach\<lparr>turn_num := 1, finished := True\<rparr>, [FeedbackGenerate], None)
   \<and> last_user_message (messages (junior_asked msg_stop)) = Some msg_stop
   \<and> should_continue test_lib 10 (junior_asked msg_stop) = ToFeedback"
proof -
  have t: "turn_num junior_coach = 0"
    by (simp add: junior_coach_eq)
  have l: "last_user_message (messages (junior_asked msg_stop)) = Some msg_stop"
    by (simp add: junior_asked_def last_user_message_def)
  have f: "\<not> interview_finished (junior_asked msg_stop)"
    by (simp add: junior_asked_def junior_state_def)
  from termination_command_goes_to_feedback[of test_lib msg_stop "env_of analysis_strong"
      junior_coach "junior_asked msg_stop" msg_stop 10] msg_stop_is_stop t l f
  show ?thesis by simp
qed

section \<open>The correctness streak\<close>

lemma adjust_streak_raises:
  "verdict_good a = Inl e \<Longrightarrow> adjust_difficulty a c = (c, Some e)"
  by (simp add: adjust_difficulty_def verdict_good_def Let_def)

lemma adjust_streak_reset:
  "verdict_good a = Inr False \<Longrightarrow> correct_streak (fst (adjust_difficulty a c)) = 0"
  by (auto simp: adjust_difficulty_def verdict_good_def Let_def split: sum.splits if_splits)

lemma adjust_streak_good:
  "verdict_good a = Inr True \<Longrightarrow>
   correct_streak (fst (adjust_difficulty a c)) = 0
   \<or> correct_streak (fst (adjust_difficulty a c)) = correct_streak c + 1"
  by (auto simp: adjust_difficulty_def verdict_good_def Let_def split: sum.splits if_splits)

lemma adjust_streak_raise_reset:
  assumes "verdict_good a = Inr True"
    and "dict_get a (asc ''difficulty_recommendation'') (PyStr (asc ''maintain''))
           = PyStr (asc ''increase'')
         \<or> 2 \<le> correct_streak c + 1"
  shows "correct_streak (fst (adjust_difficulty a c)) = 0"
  using assms
  by (auto simp: adjust_difficulty_def verdict_good_def Let_def split: sum.splits if_splits)

lemma adjust_streak_grows:
  assumes "verdict_good a = Inr True"
    and "dict_get a (asc ''difficulty_recommendation'') (PyStr (asc ''maintain''))
           \<noteq> PyStr (asc ''increase'')"
    and "correct_streak c + 1 < 2"
  shows "correct_streak (fst (adjust_difficulty a c)) = correct_streak c + 1"
  using assms
  by (auto simp: adjust_difficulty_def verdict_good_def Let_def split: sum.splits if_splits)

lemma update_streak_edge:
  "correct_streak (fst (update_difficulty (Some e) a c)) = correct_streak c"
  by (cases e) (simp_all add: update_difficulty_def Let_def)

lemma update_difficulty_plain:
  "update_difficulty None a c = adjust_difficulty a c"
  by (simp add: update_difficulty_def)

text \<open>
  A turn leaves the streak as it was, unless it is a turn without an edge case whose
  first test did not raise.
\<close>

lemma process_streak_cases:
  "correct_streak (fst (process L env c msg)) = correct_streak c
   \<or> (\<exists>a. mentor_analyze env = Inr (PyDict a) \<and> detect_edge_case L msg (PyDict a) = Inr None
          \<and> \<not> list_ex (\<lambda>cmd. contains cmd (str_lower L msg)) stop_commands
          \<and> ((verdict_good a = Inr False \<and> correct_streak (fst (process L env c msg)) = 0)
              \<or> (verdict_good a = Inr True
                  \<and> (correct_streak (fst (process L env c msg)) = 0
                      \<or> correct_streak (fst (process L env c msg)) = correct_streak c + 1))))"
proof (cases "list_ex (\<lambda>cmd. contains cmd (str_lower L msg)) stop_commands")
  case True
  then show ?thesis by (simp add: process_stop)
next
  case ns: False
  show ?thesis
  proof (cases "mentor_analyze env")
    case (Inl e)
    then show ?thesis using ns by (simp add: process_mentor_raises)
  next
    case anv: (Inr v)
    show ?thesis
    proof (cases "detect_edge_case L msg v")
      case (Inl e)
      then show ?thesis using ns anv by (simp add: process_detect_raises)
    next
      case detv: (Inr e)
      show ?thesis
      proof (cases "\<exists>d. v = PyDict d")
        case False
        then show ?thesis by (simp add: process_not_dict[OF ns anv detv])
      next
        case True
        then obtain a where v: "v = PyDict a" by blast
        note an = anv[unfolded v] and det = detv[unfolded v]
        note st = process_analysed(2)[OF ns an det, of c]
        show ?thesis
        proof (cases e)
          case (Some x)
          then show ?thesis using st by (simp add: update_streak_edge)
        next
          case None
          let ?c0 = "c\<lparr>turn_num := turn_num c + 1\<rparr>"
          have st': "correct_streak (fst (process L env c msg))
                     = correct_streak (fst (adjust_difficulty a ?c0))"
            using st None by (simp add: update_difficulty_plain)
          show ?thesis
          proof (cases "verdict_good a")
            case (Inl err)
            then show ?thesis using st' by (simp add: adjust_streak_raises)
          next
            case (Inr good)
            show ?thesis
            proof (cases good)
              case True
              with Inr have g: "verdict_good a = Inr True" by simp
              from adjust_streak_good[OF g, of ?c0] st' g an det None ns show ?thesis by auto
            next
              case False
              with Inr have g: "verdict_good a = Inr False" by simp
              from adjust_streak_reset[OF g, of ?c0] st' g an det None ns show ?thesis by auto
            qed
          qed
        qed
      qed
    qed
  qed
qed

lemma process_streak_nonneg:
  assumes "0 \<le> correct_streak c"
  shows "0 \<le> correct_streak (fst (process L env c msg))"
  using process_streak_cases[of L env c msg] assms by auto

lemma run_turns_streak_nonneg:
  "0 \<le> correct_streak c \<Longrightarrow> 0 \<le> correct_streak (run_turns L c ts)"
proof (induction ts arbitrary: c)
  case Nil
  then show ?case by simp
next
  case (Cons t ts)
  from process_streak_nonneg[OF Cons.prems, of L "fst t" "snd t"]
  show ?case using Cons.IH by simp
qed

lemma start_streak: "correct_streak (start L g coach_init) = 0"
  by (simp add: start_def coach_init_def Let_def)

lemma msg_answer_no_stop:
  "\<not> list_ex (\<lambda>cmd. contains cmd (str_lower test_lib msg_answer)) stop_commands"
  by (simp add: msg_answer_def lib_defs table_defs)

lemma msg_answer_plain:
  "detect_edge_case test_lib msg_answer (PyDict analysis_good) = Inr None"
  "detect_edge_case test_lib msg_answer (PyDict analysis_weak) = Inr None"
  "detect_edge_case test_lib msg_answer (PyDict analysis_wrong_increase) = Inr None"
  "detect_edge_case test_lib msg_answer (PyDict analysis_hallucination) = Inr None"
  "detect_edge_case test_lib msg_answer (PyDict []) = Inr None"
  by (simp_all add: detect_edge_case_def msg_answer_def analysis_good_def analysis_weak_def
      analysis_wrong_increase_def analysis_hallucination_def dict_get_def lib_defs table_defs)

lemma good_turn:
  "process test_lib (env_of analysis_good) junior_coach msg_answer
   = (\<lparr>turn_num = 1, finished = False, difficulty = 3, correct_streak = 1,
       difficulty_history = [3, 3], red_flags = []\<rparr>, [MentorAnalyze msg_answer], None)"
  by (simp add: junior_coach_eq process_def env_of_def msg_answer_def analysis_good_def
      detect_edge_case_def update_difficulty_def adjust_difficulty_def escalate_def
      dict_get_def py_ge_def py_lt_def lib_defs table_defs Let_def)

lemma dont_know_after_good_turn:
  "process test_lib (env_of analysis_weak)
     \<lparr>turn_num = 1, finished = False, difficulty = 3, correct_streak = 1,
       difficulty_history = [3, 3], red_flags = []\<rparr> msg_dont_know
   = (\<lparr>turn_num = 2, finished = False, difficulty = 2, correct_streak = 1,
       difficulty_history = [3, 3, 2], red_flags = []\<rparr>, [MentorAnalyze msg_dont_know], None)"
  by (simp add: process_def env_of_def msg_dont_know_def analysis_weak_def
      detect_edge_case_def update_difficulty_def escalate_def dict_get_def
      lib_defs table_defs Let_def)

lemma rude_after_good_turn:
  "process test_lib (env_of analysis_weak)
     \<lparr>turn_num = 1, finished = False, difficulty = 3, correct_streak = 1,
       difficulty_history = [3, 3], red_flags = []\<rparr> msg_rude
   = (\<lparr>turn_num = 2, finished = False, difficulty = 3, correct_streak = 1,
       difficulty_history = [3, 3], red_flags = []\<rparr>, [MentorAnalyze msg_rude], None)"
  by (simp add: process_def env_of_def msg_rude_def analysis_weak_def
      detect_edge_case_def update_difficulty_def escalate_def dict_get_def
      lib_defs table_defs Let_def)

lemma weak_after_good_turn:
  "process test_lib (env_of analysis_weak)
     \<lparr>turn_num = 1, finished = False, difficulty = 3, correct_streak = 1,
       difficulty_history = [3, 3], red_flags = []\<rparr> msg_answer
   = (\<lparr>turn_num = 2, finished = False, difficulty = 2, correct_streak = 0,
       difficulty_history = [3, 3, 2], red_flags = []\<rparr>, [MentorAnalyze msg_answer], None)"
  by (simp add: process_def env_of_def msg_answer_def analysis_weak_def
      detect_edge_case_def update_difficulty_def adjust_difficulty_def escalate_def
      dict_get_def py_ge_def py_lt_def lib_defs table_defs Let_def)

lemma verdict_examples:
  "verdict_good analysis_good = Inr True" "verdict_good analysis_weak = Inr False"
  by (simp_all add: verdict_good_def analysis_good_def analysis_weak_def dict_get_def
      py_ge_def asc_def)

text \<open>
  Claim C4, as the coach has it. The streak is never negative. A turn without an edge
  case whose verdict is not correct, or whose score is a number below 80, ends with the
  streak at 0. The streak grows only on a turn without an edge case whose verdict is
  correct with a score of at least 80, and then by exactly one; such a turn adds one to
  the streak unless the recommendation is to increase or the streak reaches 2, and then
  it raises the level and resets the streak to 0.
\<close>

theorem streak_law:
  assumes "0 \<le> correct_streak c"
  shows "0 \<le> correct_streak (run_turns L (start L g coach_init) ts)
     \<and> 0 \<le> correct_streak (fst (process L env c msg))
     \<and> (\<not> list_ex (\<lambda>cmd. contains cmd (str_lower L msg)) stop_commands
         \<and> mentor_analyze env = Inr (PyDict a) \<and> detect_edge_case L msg (PyDict a) = Inr None
         \<and> verdict_good a = Inr False
         \<longrightarrow> correct_streak (fst (process L env c msg)) = 0)
     \<and> (correct_streak c < correct_streak (fst (process L env c msg))
         \<longrightarrow> correct_streak (fst (process L env c msg)) = correct_streak c + 1
             \<and> \<not> list_ex (\<lambda>cmd. contains cmd (str_lower L msg)) stop_commands
             \<and> (\<exists>a'. mentor_analyze env = Inr (PyDict a')
                      \<and> detect_edge_case L msg (PyDict a') = Inr None
                      \<and> verdict_good a' = Inr True))
     \<and> (\<not> list_ex (\<lambda>cmd. contains cmd (str_lower L msg)) stop_commands
         \<and> mentor_analyze env = Inr (PyDict a) \<and> detect_edge_case L msg (PyDict a) = Inr None
         \<and> verdict_good a = Inr True
         \<longrightarrow> correct_streak (fst (process L env c msg))
             = (if dict_get a (asc ''difficulty_recommendation'') (PyStr (asc ''maintain''))
                     = PyStr (asc ''increase'')
                   \<or> 2 \<le> correct_streak c + 1
                then 0 else correct_streak c + 1))"
proof -
  have 1: "0 \<le> correct_streak (run_turns L (start L g coach_init) ts)"
    by (rule run_turns_streak_nonneg) (simp add: start_streak)
  have 2: "0 \<le> correct_streak (fst (process L env c msg))"
    using assms by (rule process_streak_nonneg)
  have 3: "correct_streak (fst (process L env c msg)) = 0"
    if "\<not> list_ex (\<lambda>cmd. contains cmd (str_lower L msg)) stop_commands"
      and "mentor_analyze env = Inr (PyDict a)"
      and "detect_edge_case L msg (PyDict a) = Inr None"
      and "verdict_good a = Inr False"
  proof -
    have "correct_streak (fst (process L env c msg))
          = correct_streak (fst (adjust_difficulty a (c\<lparr>turn_num := turn_num c + 1\<rparr>)))"
      using process_analysed(2)[OF that(1,2,3), of c] by (simp add: update_difficulty_plain)
    then show ?thesis using adjust_streak_reset[OF that(4)] by simp
  qed
  have 4: "correct_streak (fst (process L env c msg)) = correct_streak c + 1
             \<and> \<not> list_ex (\<lambda>cmd. contains cmd (str_lower L msg)) stop_commands
             \<and> (\<exists>a'. mentor_analyze env = Inr (PyDict a')
                      \<and> detect_edge_case L msg (PyDict a') = Inr None
                      \<and> verdict_good a' = Inr True)"
    if "correct_streak c < correct_streak (fst (process L env c msg))"
    using process_streak_cases[of L env c msg] that assms by auto
  have 5: "correct_streak (fst (process L env c msg))
             = (if dict_get a (asc ''difficulty_recommendation'') (PyStr (asc ''maintain''))
                     = PyStr (asc ''increase'')
                   \<or> 2 \<le> correct_streak c + 1
                then 0 else correct_streak c + 1)"
    if "\<not> list_ex (\<lambda>cmd. contains cmd (str_lower L msg)) stop_commands"
      and "mentor_analyze env = Inr (PyDict a)"
      and "detect_edge_case L msg (PyDict a) = Inr None"
      and "verdict_good a = Inr True"
  proof -
    let ?c0 = "c\<lparr>turn_num := turn_num c + 1\<rparr>"
    have st: "correct_streak (fst (process L env c msg))
              = correct_streak (fst (adjust_difficulty a ?c0))"
      using process_analysed(2)[OF that(1,2,3), of c] by (simp add: update_difficulty_plain)
    show ?thesis
    proof (cases "dict_get a (asc ''difficulty_recommendation'') (PyStr (asc ''maintain''))
                    = PyStr (asc ''increase'')
                  \<or> 2 \<le> correct_streak c + 1")
      case True
      then have "correct_streak (fst (adjust_difficulty a ?c0)) = 0"
        by (intro adjust_streak_raise_reset[OF that(4)]) simp
      with True st show ?thesis by simp
    next
      case False
      then have "correct_streak (fst (adjust_difficulty a ?c0)) = correct_streak ?c0 + 1"
        by (intro adjust_streak_grows[OF that(4)]) simp_all
      with False st show ?thesis by simp
    qed
  qed
  from 1 2 3 4 5 show ?thesis by blast
qed

theorem streak_law_witness:
  "correct_streak junior_coach = 0
   \<and> verdict_good analysis_good = Inr True
   \<and> correct_streak (fst (process test_lib (env_of analysis_good) junior_coach msg_answer)) = 1
   \<and> verdict_good analysis_weak = Inr False
   \<and> correct_streak (fst (process test_lib (env_of analysis_weak)
        (fst (process test_lib (env_of analysis_good) junior_coach msg_answer)) msg_answer)) = 0"
proof -
  have c: "correct_streak junior_coach = 0"
    by (simp add: junior_coach_eq)
  have m: "mentor_analyze (env_of analysis_weak) = Inr (PyDict analysis_weak)"
    by (simp add: env_of_def)
  from streak_law[of "fst (process test_lib (env_of analysis_good) junior_coach msg_answer)"
      test_lib "asc ''Junior''" "[]" "env_of analysis_weak" msg_answer analysis_weak]
    msg_answer_no_stop msg_answer_plain m verdict_examples c
  show ?thesis by (simp add: good_turn)
qed

text \<open>
  Claim C4, as the specification has it, fails: after a good answer has brought the
  streak to 1, a "don't know" turn lowers the level and leaves the streak at 1, and so
  does a rude turn, although the verdict of either turn is not correct.
\<close>

theorem streak_survives_edge_case:
  "correct_streak (run_turns test_lib junior_coach [(env_of analysis_good, msg_answer)]) = 1
   \<and> verdict_good analysis_weak = Inr False
   \<and> detect_edge_case test_lib msg_dont_know (PyDict analysis_weak) = Inr (Some DontKnow)
   \<and> correct_streak (run_turns test_lib junior_coach
        [(env_of analysis_good, msg_answer), (env_of analysis_weak, msg_dont_know)]) = 1
   \<and> detect_edge_case test_lib msg_rude (PyDict analysis_weak) = Inr (Some Rude)
   \<and> correct_streak (run_turns test_lib junior_coach
        [(env_of analysis_good, msg_answer), (env_of analysis_weak, msg_rude)]) = 1"
proof -
  have d1: "detect_edge_case test_lib msg_dont_know (PyDict analysis_weak) = Inr (Some DontKnow)"
    by (simp add: detect_edge_case_def msg_dont_know_def lib_defs table_defs)
  have d2: "detect_edge_case test_lib msg_rude (PyDict analysis_weak) = Inr (Some Rude)"
    by (simp add: detect_edge_case_def msg_rude_def analysis_weak_def dict_get_def
        lib_defs table_defs)
  show ?thesis
    using d1 d2 verdict_examples
    by (simp add: good_turn dont_know_after_good_turn rude_after_good_turn)
qed

section \<open>Structured-response recovery\<close>

lemma retry_rounds_fail:
  "attempt_outcome L f p t i = None \<Longrightarrow>
   retry_rounds L f p t (i # rest)
   = (attempt_call p t i # fst (retry_rounds L f p t rest), snd (retry_rounds L f p t rest))"
  by (auto simp: attempt_outcome_def attempt_call_def Let_def
      split: sum.splits prod.splits if_splits)

lemma retry_rounds_success:
  "attempt_outcome L f p t i = Some v \<Longrightarrow>
   retry_rounds L f p t (i # rest) = ([attempt_call p t i], v)"
  by (auto simp: attempt_outcome_def attempt_call_def Let_def
      split: sum.splits prod.splits if_splits)

text \<open>Rounds that all fail are all made, and the empty record comes back.\<close>

lemma retry_rounds_all_fail:
  "(\<And>i. i \<in> set xs \<Longrightarrow> attempt_outcome L f p t i = None) \<Longrightarrow>
   retry_rounds L f p t xs = (map (attempt_call p t) xs, PyDict [])"
  by (induction xs) (simp_all add: retry_rounds_fail del: retry_rounds.simps(2))

text \<open>The first round that yields a value ends the loop.\<close>

lemma retry_rounds_first_success:
  "(\<And>i. i \<in> set xs \<Longrightarrow> attempt_outcome L f p t i = None) \<Longrightarrow>
   attempt_outcome L f p t j = Some v \<Longrightarrow>
   retry_rounds L f p t (xs @ j # ys) = (map (attempt_call p t) (xs @ [j]), v)"
  by (induction xs)
     (simp_all add: retry_rounds_fail retry_rounds_success del: retry_rounds.simps(2))

lemma upt_split:
  assumes "j < n"
  shows "[0..<n] = [0..<j] @ j # [Suc j..<n]"
proof -
  have "[0..<j + (n - j)] = [0..<j] @ [j..<j + (n - j)]"
    by (rule upt_add_eq_append) simp
  moreover have "j + (n - j) = n" using assms by simp
  ultimately have "[0..<n] = [0..<j] @ [j..<n]" by simp
  then show ?thesis using assms by (simp add: upt_conv_Cons)
qed

lemma outcome_truthy: "attempt_outcome L f p t i = Some v \<Longrightarrow> truthy v"
  by (auto simp: attempt_outcome_def split: sum.splits if_splits)

lemma retry_shape:
  "((\<forall>i < nat n. attempt_outcome L f p t i = None)
      \<and> call_llm_with_json_retry L f p n t = (map (attempt_call p t) [0..<nat n], PyDict []))
   \<or> (\<exists>j v. j < nat n \<and> attempt_outcome L f p t j = Some v
          \<and> (\<forall>i < j. attempt_outcome L f p t i = None)
          \<and> call_llm_with_json_retry L f p n t = (map (attempt_call p t) [0..<Suc j], v))"
proof (cases "\<forall>i < nat n. attempt_outcome L f p t i = None")
  case True
  then have "call_llm_with_json_retry L f p n t = (map (attempt_call p t) [0..<nat n], PyDict [])"
    unfolding call_llm_with_json_retry_def by (intro retry_rounds_all_fail) simp
  with True show ?thesis by blast
next
  case False
  define j where "j = (LEAST i. i < nat n \<and> attempt_outcome L f p t i \<noteq> None)"
  from False have ex: "\<exists>i. i < nat n \<and> attempt_outcome L f p t i \<noteq> None" by blast
  from LeastI_ex[OF ex] have j: "j < nat n" "attempt_outcome L f p t j \<noteq> None"
    by (simp_all add: j_def)
  have least: "attempt_outcome L f p t i = None" if "i < j" for i
  proof (rule ccontr)
    assume "attempt_outcome L f p t i \<noteq> None"
    with that j(1) have "i < nat n \<and> attempt_outcome L f p t i \<noteq> None" by simp
    then have "j \<le> i" unfolding j_def by (rule Least_le)
    with that show False by simp
  qed
  from j obtain v where v: "attempt_outcome L f p t j = Some v" by blast
  have "retry_rounds L f p t ([0..<j] @ j # [Suc j..<nat n])
        = (map (attempt_call p t) ([0..<j] @ [j]), v)"
    by (rule retry_rounds_first_success) (use least v in simp_all)
  then have "call_llm_with_json_retry L f p n t = (map (attempt_call p t) [0..<Suc j], v)"
    unfolding call_llm_with_json_retry_def using upt_split[OF j(1)] by simp
  with j(1) v least show ?thesis by blast
qed

lemma attempt_call_nth:
  "i < k \<Longrightarrow> map (attempt_call p t) [0..<k] ! i
     = (if i = 0 then p else p @ retry_head @ str_nat (i + 1) @ retry_tail,
        max (3 / 10) (t - of_nat i * (2 / 10)))"
  by (simp add: attempt_call_def del: upt_Suc)

lemma extract_prose: "extract_json test_lib prose = PyDict []"
  by (simp add: extract_json_def parsed_json_def normalize_fences_def sub_prefix_ws_def
      sub_fence_end_def brace_span_def fence_def fence_json_def prose_def lib_defs Let_def)

lemma parsed_empty_object: "parsed_json test_lib [123, 125] = Some (PyDict [])"
  by (simp add: parsed_json_def normalize_fences_def sub_prefix_ws_def
      sub_fence_end_def brace_span_def fence_def fence_json_def lib_defs Let_def)

lemma extract_is_true:
  "extract_json test_lib text_is_true = PyDict [(asc ''is_true'', PyBool True)]"
  by (simp add: extract_json_def parsed_json_def normalize_fences_def sub_prefix_ws_def
      sub_fence_end_def brace_span_def fence_def fence_json_def lib_defs Let_def)

text \<open>
  Claim C8, as the code has it. The recovery makes at most \<open>max_retries\<close> calls. Call
  \<open>i\<close> (from 0) has the temperature \<open>max 0.3 (base - 0.2 i)\<close>; call 0 sends the prompt as
  it is and a later call appends the instruction to answer with bare JSON. The first
  round whose answer parses to a non-empty value ends the loop and gives the result. The
  result is the empty record exactly when no round yields such a value: a round fails
  when its call raises, when its answer does not parse, and also when it parses to an
  empty value. No exception reaches the caller: the function returns a value for every
  language model, those that raise included.
\<close>

theorem recovery_law:
  fixes L f p n t
  defines "calls \<equiv> fst (call_llm_with_json_retry L f p n t)"
  defines "r \<equiv> snd (call_llm_with_json_retry L f p n t)"
  shows "length calls \<le> nat n
     \<and> (\<forall>i < length calls.
           calls ! i = (if i = 0 then p else p @ retry_head @ str_nat (i + 1) @ retry_tail,
                        max (3 / 10) (t - of_nat i * (2 / 10))))
     \<and> (\<forall>j v. j < nat n \<and> attempt_outcome L f p t j = Some v
               \<and> (\<forall>i < j. attempt_outcome L f p t i = None)
            \<longrightarrow> r = v \<and> length calls = j + 1)
     \<and> ((\<forall>i < nat n. attempt_outcome L f p t i = None)
            \<longrightarrow> r = PyDict [] \<and> length calls = nat n)
     \<and> (r = PyDict [] \<longleftrightarrow> (\<forall>i < nat n. attempt_outcome L f p t i = None))"
proof -
  from retry_shape[of n L f p t]
  consider (exhausted) "\<forall>i < nat n. attempt_outcome L f p t i = None"
      "call_llm_with_json_retry L f p n t = (map (attempt_call p t) [0..<nat n], PyDict [])"
    | (parsed) j v where "j < nat n" "attempt_outcome L f p t j = Some v"
      "\<forall>i < j. attempt_outcome L f p t i = None"
      "call_llm_with_json_retry L f p n t = (map (attempt_call p t) [0..<Suc j], v)"
    by blast
  then show ?thesis
  proof cases
    case exhausted
    have c: "calls = map (attempt_call p t) [0..<nat n]" and rr: "r = PyDict []"
      using exhausted(2) by (simp_all add: calls_def r_def)
    have 1: "length calls \<le> nat n" by (simp add: c)
    have 2: "\<forall>i < length calls.
           calls ! i = (if i = 0 then p else p @ retry_head @ str_nat (i + 1) @ retry_tail,
                        max (3 / 10) (t - of_nat i * (2 / 10)))"
      unfolding c using attempt_call_nth[of _ "nat n" p t] by simp
    have 3: "\<forall>j v. j < nat n \<and> attempt_outcome L f p t j = Some v
               \<and> (\<forall>i < j. attempt_outcome L f p t i = None)
            \<longrightarrow> r = v \<and> length calls = j + 1"
      using exhausted(1) by auto
    have 4: "(\<forall>i < nat n. attempt_outcome L f p t i = None)
            \<longrightarrow> r = PyDict [] \<and> length calls = nat n"
      by (simp add: c rr)
    have 5: "r = PyDict [] \<longleftrightarrow> (\<forall>i < nat n. attempt_outcome L f p t i = None)"
      using exhausted(1) rr by simp
    from 1 2 3 4 5 show ?thesis by blast
  next
    case parsed
    have c: "calls = map (attempt_call p t) [0..<Suc j]" and rr: "r = v"
      using parsed(4) by (simp_all add: calls_def r_def)
    have len: "length calls = j + 1" by (simp add: c)
    have 1: "length calls \<le> nat n" using parsed(1) len by simp
    have 2: "\<forall>i < length calls.
           calls ! i = (if i = 0 then p else p @ retry_head @ str_nat (i + 1) @ retry_tail,
                        max (3 / 10) (t - of_nat i * (2 / 10)))"
      unfolding c using attempt_call_nth[of _ "Suc j" p t] by (simp del: upt_Suc)
    have uniq: "j' = j \<and> v' = v" if "attempt_outcome L f p t j' = Some v'"
      and "\<forall>i < j'. attempt_outcome L f p t i = None" for j' v'
    proof -
      have "\<not> j' < j" using parsed(3) that(1) by auto
      moreover have "\<not> j < j'" using that(2) parsed(2) by auto
      ultimately have "j' = j" by simp
      then show ?thesis using that(1) parsed(2) by simp
    qed
    have 3: "\<forall>j v. j < nat n \<and> attempt_outcome L f p t j = Some v
               \<and> (\<forall>i < j. attempt_outcome L f p t i = None)
            \<longrightarrow> r = v \<and> length calls = j + 1"
      using uniq rr len by blast
    have some: "\<not> (\<forall>i < nat n. attempt_outcome L f p t i = None)"
      using parsed(1,2) by auto
    have 4: "(\<forall>i < nat n. attempt_outcome L f p t i = None)
            \<longrightarrow> r = PyDict [] \<and> length calls = nat n"
      using some by blast
    have "truthy v" using outcome_truthy[OF parsed(2)] .
    then have "v \<noteq> PyDict []" by auto
    then have 5: "r = PyDict [] \<longleftrightarrow> (\<forall>i < nat n. attempt_outcome L f p t i = None)"
      using some rr by blast
    from 1 2 3 4 5 show ?thesis by blast
  qed
qed

theorem recovery_law_witness:
  "attempt_outcome test_lib llm_second_try (asc ''p'') (7 / 10) 0 = None
   \<and> attempt_outcome test_lib llm_second_try (asc ''p'') (7 / 10) 1
      = Some (PyDict [(asc ''is_true'', PyBool True)])
   \<and> snd (call_llm_with_json_retry test_lib llm_second_try (asc ''p'') 3 (7 / 10))
      = PyDict [(asc ''is_true'', PyBool True)]
   \<and> length (fst (call_llm_with_json_retry test_lib llm_second_try (asc ''p'') 3 (7 / 10))) = 2"
proof -
  have o0: "attempt_outcome test_lib llm_second_try (asc ''p'') (7 / 10) 0 = None"
    by (simp add: attempt_outcome_def llm_second_try_def extract_prose)
  have o1: "attempt_outcome test_lib llm_second_try (asc ''p'') (7 / 10) 1
            = Some (PyDict [(asc ''is_true'', PyBool True)])"
    by (simp add: attempt_outcome_def llm_second_try_def extract_is_true)
  from recovery_law[of test_lib llm_second_try "asc ''p''" 3 "7 / 10"] o0 o1
  have "snd (call_llm_with_json_retry test_lib llm_second_try (asc ''p'') 3 (7 / 10))
          = PyDict [(asc ''is_true'', PyBool True)]
        \<and> length (fst (call_llm_with_json_retry test_lib llm_second_try (asc ''p'') 3 (7 / 10)))
          = 1 + 1"
    by (elim conjE allE[of _ "1::nat"] allE[of _ "PyDict [(asc ''is_true'', PyBool True)]"])
       simp
  with o0 o1 show ?thesis by simp
qed

text \<open>
  Claim C8, as the specification has it, fails: a language model that answers \<^verbatim>\<open>{}\<close>
  gives parseable JSON on each of the three rounds, and the recovery makes all three
  calls and returns the empty record.
\<close>

theorem empty_object_is_retried:
  "parsed_json test_lib [123, 125] = Some (PyDict [])
   \<and> length (fst (call_llm_with_json_retry test_lib llm_empty_object (asc ''p'') 3 (7 / 10))) = 3
   \<and> snd (call_llm_with_json_retry test_lib llm_empty_object (asc ''p'') 3 (7 / 10)) = PyDict []"
proof -
  have "attempt_outcome test_lib llm_empty_object p t i = None" for p t i
    using parsed_empty_object
    by (simp add: attempt_outcome_def llm_empty_object_def extract_json_def)
  then have "call_llm_with_json_retry test_lib llm_empty_object p n t
       = (map (attempt_call p t) [0..<nat n], PyDict [])" for p n t
    unfolding call_llm_with_json_retry_def by (intro retry_rounds_all_fail) simp
  then show ?thesis using parsed_empty_object by simp
qed

section \<open>Where the two controllers part\<close>

lemmas coach_turn_defs =
  process_def env_of_def detect_edge_case_def update_difficulty_def adjust_difficulty_def
  escalate_def dict_get_def py_ge_def py_lt_def

lemmas node_defs =
  mentor_node_def node_env_of_def junior_asked_def junior_state_def last_user_message_def
  should_fact_check_def or_else_def py_iter_def dict_get_def number_le_def number_ge_def
  py_str_def node_topics_def strip_of_def node_difficulty_def node_mode_def node_level_def
  node_history_def adapt_def lower_of_def filing_raises_def sliceable_def

text \<open>
  The coach raises the level on a truthy verdict only: when \<^verbatim>\<open>_adjust_difficulty\<close>
  returns, the level is one higher (at most 10) and the streak is 0 if the verdict is
  truthy and the recommendation is to increase or the updated streak has reached 2, and
  the level (at least 1 before) is not higher than before otherwise.
\<close>

lemma adjust_difficulty_raise:
  assumes "adjust_difficulty a c = (c', None)" and "1 \<le> difficulty c"
  defines "updated \<equiv> (if verdict_good a = Inr True then correct_streak c + 1 else 0)"
  defines "raise \<equiv> truthy (dict_get a (asc ''is_correct'') (PyBool False))
              \<and> (dict_get a (asc ''difficulty_recommendation'') (PyStr (asc ''maintain''))
                    = PyStr (asc ''increase'')
                  \<or> updated \<ge> 2)"
  shows "(raise \<longrightarrow> difficulty c' = min 10 (difficulty c + 1) \<and> correct_streak c' = 0)
       \<and> (\<not> raise \<longrightarrow> difficulty c' \<le> difficulty c \<and> correct_streak c' = updated)"
  using assms(1,2) unfolding raise_def updated_def
  by (auto simp: adjust_difficulty_def verdict_good_def Let_def split: sum.splits if_splits)

lemma adjust_difficulty_needs_verdict:
  "\<not> truthy (dict_get a (asc ''is_correct'') (PyBool False)) \<Longrightarrow> 1 \<le> difficulty c \<Longrightarrow>
   difficulty (fst (adjust_difficulty a c)) \<le> difficulty c"
  by (auto simp: adjust_difficulty_def Let_def split: sum.splits if_splits)

text \<open>
  Claim C2 holds for the coach and fails for the graph. On the answer "a list is mutable"
  with the analysis \<^verbatim>\<open>{"is_correct": false, "correctness_score": 50,
  "difficulty_recommendation": "increase"}\<close> and level 3, the coach keeps level 3, and the
  mentor node of the graph raises the level to 4 and appends it to the trajectory.
\<close>

theorem increase_without_correct_verdict:
  "difficulty (fst (process test_lib (env_of analysis_wrong_increase) junior_coach msg_answer)) = 3
   \<and> difficulty_level (junior_asked msg_answer) = 3
   \<and> mentor_node test_lib (node_env_of analysis_wrong_increase) (junior_asked msg_answer)
     = (Inr ((junior_asked msg_answer)\<lparr>difficulty_level := 4, difficulty_history_g := [3, 4]\<rparr>),
        [MentorAnalyze msg_answer])"
proof -
  have "difficulty (fst (process test_lib (env_of analysis_wrong_increase) junior_coach msg_answer)) = 3"
    by (simp add: junior_coach_eq coach_turn_defs msg_answer_def analysis_wrong_increase_def
        lib_defs table_defs Let_def)
  moreover have "mentor_node test_lib (node_env_of analysis_wrong_increase) (junior_asked msg_answer)
     = (Inr ((junior_asked msg_answer)\<lparr>difficulty_level := 4, difficulty_history_g := [3, 4]\<rparr>),
        [MentorAnalyze msg_answer])"
    by (simp add: node_defs msg_answer_def analysis_wrong_increase_def lib_defs table_defs Let_def)
  moreover have "difficulty_level (junior_asked msg_answer) = 3"
    by (simp add: junior_asked_def junior_state_def)
  ultimately show ?thesis by simp
qed

text \<open>
  The gate of the graph fires on the trigger phrase whatever the analysis holds, unless
  the red flags of the analysis cannot be iterated and the node raises.
\<close>

lemma trigger_phrase_fires:
  assumes "contains (asc ''python 4'') (str_lower L msg)"
  shows "should_fact_check L a msg = Inr True \<or> should_fact_check L a msg = Inl TypeError"
  using assms
  by (auto simp: should_fact_check_def py_iter_def Let_def split: sum.splits pyval.splits)

text \<open>
  Claim C3 holds for the graph and fails for the coach. The message "V Python 4.0 tsikly
  for uberut" contains the trigger phrase. With an analysis whose hallucination flag is
  false, the gate of the graph fires and the mentor node calls the fact checker, and the
  coach calls the mentor only.
\<close>

theorem trigger_phrase_without_flag:
  "contains (asc ''python 4'') (str_lower test_lib msg_python4)
   \<and> snd (mentor_node test_lib (node_env_of analysis_calm) (junior_asked msg_python4))
     = [MentorAnalyze msg_python4, FactCheck msg_python4]
   \<and> fst (snd (process test_lib (env_of analysis_calm) junior_coach msg_python4))
     = [MentorAnalyze msg_python4]"
proof -
  have "contains (asc ''python 4'') (str_lower test_lib msg_python4)"
    by (simp add: msg_python4_def lib_defs)
  moreover have "snd (mentor_node test_lib (node_env_of analysis_calm) (junior_asked msg_python4))
     = [MentorAnalyze msg_python4, FactCheck msg_python4]"
    by (simp add: node_defs fact_check_flags_def agents_check_def prose_def msg_python4_def
        analysis_calm_def lib_defs table_defs Let_def)
  moreover have "fst (snd (process test_lib (env_of analysis_calm) junior_coach msg_python4))
     = [MentorAnalyze msg_python4]"
    by (simp add: junior_coach_eq coach_turn_defs msg_python4_def analysis_calm_def
        lib_defs table_defs Let_def)
  ultimately show ?thesis by simp
qed

text \<open>
  The graph adds a red flag exactly when the fact checker's record holds \<^verbatim>\<open>False\<close> for
  \<^verbatim>\<open>is_true\<close>; an answer that does not parse adds none.
\<close>

lemma fact_check_flags_false_only:
  assumes "fact_check_flags L resp = Inr flags"
  shows "flags \<noteq> [] \<longleftrightarrow>
         (\<exists>d. agents_check L resp = Inr (PyDict d)
              \<and> dict_get d (asc ''is_true'') PyNone = PyBool False)"
  using assms
  by (auto simp: fact_check_flags_def split: sum.splits pyval.splits if_splits)

lemma unparseable_adds_no_flag:
  "json_loads L content = None \<Longrightarrow> fact_check_flags L (Inr content) = Inr []"
  by (simp add: fact_check_flags_def agents_check_def dict_get_def asc_def)

text \<open>
  When the language model answers all three rounds with prose that is no JSON, the fact
  checker of the coach returns a record whose \<^verbatim>\<open>is_true\<close> is \<^verbatim>\<open>False\<close>.
\<close>

lemma check_prose:
  "FactCheckerAgent_check test_lib llm_prose stmt
   = PyDict [(asc ''is_true'', PyBool False), (asc ''explanation'', PyStr fcd_explanation),
             (asc ''correct_info'', PyStr [])]"
proof -
  have "attempt_outcome test_lib llm_prose p t i = None" for p t i
    by (simp add: attempt_outcome_def llm_prose_def extract_prose)
  then have "snd (call_llm_with_json_retry test_lib llm_prose p n t) = PyDict []" for p n t
    unfolding call_llm_with_json_retry_def by (subst retry_rounds_all_fail) simp_all
  then show ?thesis by (simp add: FactCheckerAgent_check_def Let_def)
qed

text \<open>
  Claim C9 holds for the graph and fails for the coach. On a turn whose analysis carries
  the hallucination flag and whose fact check is answered with prose that is no JSON,
  the coach appends a red flag ("Ne udalos' proverit' utverzhdenie": the statement could
  not be checked), and the graph, whose fact checker answers \<^verbatim>\<open>None\<close> for \<^verbatim>\<open>is_true\<close>,
  appends nothing.
\<close>

theorem unparseable_fact_check:
  "process test_lib \<lparr>mentor_analyze = Inr (PyDict analysis_hallucination), fact_llm = llm_prose\<rparr>
     junior_coach msg_answer
   = (\<lparr>turn_num = 1, finished = False, difficulty = 3, correct_streak = 0,
        difficulty_history = [3, 3], red_flags = [flag_head @ fcd_explanation @ flag_mid]\<rparr>,
      [MentorAnalyze msg_answer, FactCheck msg_answer], None)
   \<and> json_loads test_lib prose = None
   \<and> mentor_node test_lib (node_env_of analysis_hallucination) (junior_asked msg_answer)
     = (Inr (junior_asked msg_answer), [MentorAnalyze msg_answer, FactCheck msg_answer])
   \<and> red_flags_g (junior_asked msg_answer) = []"
proof -
  let ?c1 = "\<lparr>turn_num = 1, finished = False, difficulty = 3, correct_streak = 0,
              difficulty_history = [3, 3], red_flags = []\<rparr>"
  have upd: "update_difficulty None analysis_hallucination
               (junior_coach\<lparr>turn_num := turn_num junior_coach + 1\<rparr>) = (?c1, None)"
    by (simp add: junior_coach_eq update_difficulty_def adjust_difficulty_def
        analysis_hallucination_def dict_get_def py_lt_def asc_def Let_def)
  have esc: "escalate test_lib llm_prose analysis_hallucination msg_answer ?c1
      = (?c1\<lparr>red_flags := [flag_head @ fcd_explanation @ flag_mid]\<rparr>,
         [FactCheck msg_answer], None)"
    by (simp add: escalate_def check_prose analysis_hallucination_def dict_get_def py_str_def
        asc_def Let_def)
  have coach: "process test_lib
       \<lparr>mentor_analyze = Inr (PyDict analysis_hallucination), fact_llm = llm_prose\<rparr>
       junior_coach msg_answer
     = (?c1\<lparr>red_flags := [flag_head @ fcd_explanation @ flag_mid]\<rparr>,
        [MentorAnalyze msg_answer, FactCheck msg_answer], None)"
    by (simp add: process_def msg_answer_no_stop msg_answer_plain upd esc)
  have loads: "json_loads test_lib prose = None"
    by (simp add: prose_def lib_defs)
  have node: "mentor_node test_lib (node_env_of analysis_hallucination) (junior_asked msg_answer)
     = (Inr (junior_asked msg_answer), [MentorAnalyze msg_answer, FactCheck msg_answer])"
    by (simp add: node_defs fact_check_flags_def agents_check_def prose_def msg_answer_def
        analysis_hallucination_def lib_defs table_defs Let_def)
  have "red_flags_g (junior_asked msg_answer) = []"
    by (simp add: junior_asked_def junior_state_def)
  with coach loads node show ?thesis by simp
qed

text \<open>
  The graph appends to the trajectory exactly when the level changes, and the coach
  never removes or reorders an entry: the trajectory before a turn is a prefix of the
  one after it.
\<close>

lemma adapt_history:
  assumes "adapt L a l st h = Inr (l', st', h')"
  shows "h' = (if l' \<noteq> l then h @ [l'] else h)"
  using assms by (auto simp: adapt_def Let_def split: sum.splits if_splits)

lemma adjust_difficulty_history:
  "\<exists>ys. difficulty_history (fst (adjust_difficulty a c)) = difficulty_history c @ ys"
  by (auto simp: adjust_difficulty_def Let_def split: sum.splits if_splits)

lemma update_difficulty_history:
  "\<exists>ys. difficulty_history (fst (update_difficulty e a c)) = difficulty_history c @ ys"
  using adjust_difficulty_history[of a c]
  by (auto simp: update_difficulty_def Let_def)

lemma process_history:
  "\<exists>ys. difficulty_history (fst (process L env c msg)) = difficulty_history c @ ys"
proof (cases "list_ex (\<lambda>cmd. contains cmd (str_lower L msg)) stop_commands")
  case True
  then show ?thesis by (simp add: process_stop)
next
  case ns: False
  show ?thesis
  proof (cases "mentor_analyze env")
    case (Inl e)
    then show ?thesis using ns by (simp add: process_mentor_raises)
  next
    case an: (Inr v)
    show ?thesis
    proof (cases "detect_edge_case L msg v")
      case (Inl e)
      then show ?thesis using ns an by (simp add: process_detect_raises)
    next
      case det: (Inr e)
      show ?thesis
      proof (cases "\<exists>d. v = PyDict d")
        case True
        then obtain a where v: "v = PyDict a" by blast
        from update_difficulty_history[of e a "c\<lparr>turn_num := turn_num c + 1\<rparr>"]
        show ?thesis by (simp add: process_analysed(3)[OF ns an[unfolded v] det[unfolded v]])
      next
        case False
        then show ?thesis by (simp add: process_not_dict[OF ns an det])
      qed
    qed
  qed
qed

text \<open>
  Claim C10 holds for the graph and fails for the coach. On the answer "a list is
  mutable" with an analysis that has no field, at level 3 with the trajectory [3], the
  level stays 3 in both; the coach appends a second 3 to the trajectory and the graph
  leaves the trajectory as it is. The same happens with the default record of the
  coach's mentor, whose recommendation is to maintain the level.
\<close>

theorem history_entry_without_change:
  "difficulty junior_coach = 3 \<and> difficulty_history junior_coach = [3]
   \<and> difficulty (fst (process test_lib (env_of []) junior_coach msg_answer)) = 3
   \<and> difficulty_history (fst (process test_lib (env_of []) junior_coach msg_answer)) = [3, 3]
   \<and> difficulty_level (junior_asked msg_answer) = 3
   \<and> difficulty_history_g (junior_asked msg_answer) = [3]
   \<and> mentor_node test_lib (node_env_of []) (junior_asked msg_answer)
     = (Inr (junior_asked msg_answer), [MentorAnalyze msg_answer])
   \<and> difficulty (fst (process test_lib (env_of default_analysis) junior_coach msg_answer)) = 3
   \<and> difficulty_history (fst (process test_lib (env_of default_analysis) junior_coach msg_answer))
     = [3, 3]
   \<and> mentor_node test_lib (node_env_of default_analysis) (junior_asked msg_answer)
     = (Inr (junior_asked msg_answer), [MentorAnalyze msg_answer])"
proof -
  have "process test_lib (env_of default_analysis) junior_coach msg_answer
     = (\<lparr>turn_num = 1, finished = False, difficulty = 3, correct_streak = 0,
          difficulty_history = [3, 3], red_flags = []\<rparr>, [MentorAnalyze msg_answer], None)"
    by (simp add: junior_coach_eq coach_turn_defs msg_answer_def default_analysis_def
        lib_defs table_defs Let_def)
  moreover have "mentor_node test_lib (node_env_of default_analysis) (junior_asked msg_answer)
     = (Inr (junior_asked msg_answer), [MentorAnalyze msg_answer])"
    by (simp add: node_defs msg_answer_def default_analysis_def lib_defs table_defs Let_def)
  moreover have "process test_lib (env_of []) junior_coach msg_answer
     = (\<lparr>turn_num = 1, finished = False, difficulty = 3, correct_streak = 0,
          difficulty_history = [3, 3], red_flags = []\<rparr>, [MentorAnalyze msg_answer], None)"
    by (simp add: junior_coach_eq coach_turn_defs msg_answer_def lib_defs table_defs Let_def)
  moreover have "mentor_node test_lib (node_env_of []) (junior_asked msg_answer)
     = (Inr (junior_asked msg_answer), [MentorAnalyze msg_answer])"
    by (simp add: node_defs msg_answer_def lib_defs table_defs Let_def)
  moreover have "difficulty_level (junior_asked msg_answer) = 3"
    "difficulty_history_g (junior_asked msg_answer) = [3]"
    by (simp_all add: junior_asked_def junior_state_def)
  ultimately show ?thesis by (simp add: junior_coach_eq)
qed

end
